theory Spec2Isabelle
  imports Complex_Main "HOL-Library.List_Lexorder" "HOL-Library.Char_ord"
    "HOL-Library.Product_Lexorder"
begin

section \<open>Python values\<close>

text \<open>
  The flow-control core passes around values decoded from JSON (model replies, tool
  arguments, context variables, cached rows).  \<open>json\<close> is the Python value that
  \<^verbatim>\<open>json.loads\<close> produces for an RFC 8259 document: \<^verbatim>\<open>None\<close>, \<^verbatim>\<open>bool\<close>, \<^verbatim>\<open>int\<close>,
  \<^verbatim>\<open>float\<close>, \<^verbatim>\<open>str\<close>, \<^verbatim>\<open>list\<close> and \<^verbatim>\<open>dict\<close>.  A \<^verbatim>\<open>dict\<close> is the list of its items in
  insertion order; its keys are distinct.  A float is the real number it denotes (the code
  only compares floats, it never computes with them).
\<close>

datatype json =
    JNull
  | JBool bool
  | JInt int
  | JFloat real
  | JStr string
  | JArr "json list"
  | JObj "(string \<times> json) list"

type_synonym pydict = "(string \<times> json) list"

text \<open>Python truthiness, as \<^verbatim>\<open>if x:\<close> and \<^verbatim>\<open>not x\<close> evaluate it.\<close>

fun truthy :: "json \<Rightarrow> bool" where
  "truthy JNull = False"
| "truthy (JBool b) = b"
| "truthy (JInt i) = (i \<noteq> 0)"
| "truthy (JFloat r) = (r \<noteq> 0)"
| "truthy (JStr s) = (s \<noteq> [])"
| "truthy (JArr xs) = (xs \<noteq> [])"
| "truthy (JObj kvs) = (kvs \<noteq> [])"

text \<open>\<^verbatim>\<open>d.get(k, default)\<close> and \<^verbatim>\<open>d.get(k)\<close> (default \<^verbatim>\<open>None\<close>) on a dict.\<close>

definition get_default :: "pydict \<Rightarrow> string \<Rightarrow> json \<Rightarrow> json" where
  "get_default d k dflt = (case map_of d k of None \<Rightarrow> dflt | Some v \<Rightarrow> v)"

definition py_get :: "pydict \<Rightarrow> string \<Rightarrow> json" where
  "py_get d k = get_default d k JNull"

text \<open>
  The numeric value of a Python number in a comparison with a float; \<^verbatim>\<open>bool\<close> is a
  subclass of \<^verbatim>\<open>int\<close> (\<^verbatim>\<open>True == 1\<close>).  Any other operand makes \<^verbatim>\<open>>=\<close> raise
  \<^verbatim>\<open>TypeError\<close>: the value is \<open>None\<close>.
\<close>

fun num_value :: "json \<Rightarrow> real option" where
  "num_value (JInt i) = Some (of_int i)"
| "num_value (JFloat r) = Some r"
| "num_value (JBool b) = Some (if b then 1 else 0)"
| "num_value _ = None"

text \<open>
  Exceptions are values.  Only the class of the exception matters to the callers that
  catch it; the message is kept where the source gives a literal one.
\<close>

datatype error =
    ValueError string
  | TypeError
  | KeyError string
  | AttributeError
  | GuidelineValidationError string
  | DatabaseError
  | RedisError
  | ToolExecutionError string
  | RateLimitExceededError

type_synonym uuid = nat
type_synonym datetime = int

section \<open>Guideline models (\<^verbatim>\<open>guideline/models.py\<close>)\<close>

datatype GuidelineScope = GLOBAL | JOURNEY | STATE

text \<open>
  The dataclass \<^verbatim>\<open>Guideline\<close>.  Field names that several dataclasses share carry the
  suffix \<open>_g\<close> here.  \<^verbatim>\<open>created_at\<close> and \<^verbatim>\<open>updated_at\<close> are never read by the code
  modelled below and are left out.
\<close>

record Guideline =
  id_g :: uuid
  scope :: GuidelineScope
  name_g :: string
  description_g :: "string option"
  condition_g :: string
  action_g :: string
  keywords_g :: "string list"
  tools_g :: "string list"
  priority_g :: int
  enabled_g :: bool
  journey_id_g :: "uuid option"
  state_name_g :: "string option"

text \<open>
  \<^verbatim>\<open>not self.state_name\<close> for an \<^verbatim>\<open>Optional[str]\<close>: true for \<^verbatim>\<open>None\<close> and for the empty
  string.  A \<^verbatim>\<open>UUID\<close> object is always truthy, so \<^verbatim>\<open>not self.journey_id\<close> is
  \<open>journey_id = None\<close>.
\<close>

definition not_str :: "string option \<Rightarrow> bool" where
  "not_str s = (s = None \<or> s = Some [])"

text \<open>
  \<^verbatim>\<open>Guideline.__post_init__\<close>: the dataclass constructor stores the fields and then runs
  these checks; the result is the constructed object or the \<^verbatim>\<open>ValueError\<close> raised.
\<close>

definition Guideline_post_init :: "Guideline \<Rightarrow> error + Guideline" where
  "Guideline_post_init g =
     (if name_g g = [] then Inl (ValueError ''Guideline name cannot be empty'')
      else if condition_g g = [] then Inl (ValueError ''Guideline condition cannot be empty'')
      else if action_g g = [] then Inl (ValueError ''Guideline action cannot be empty'')
      else if scope g = JOURNEY \<and> journey_id_g g = None
        then Inl (ValueError ''JOURNEY scope requires journey_id'')
      else if scope g = STATE \<and> (journey_id_g g = None \<or> not_str (state_name_g g))
        then Inl (ValueError ''STATE scope requires journey_id and state_name'')
      else Inr g)"

definition matches_scope :: "Guideline \<Rightarrow> uuid option \<Rightarrow> string option \<Rightarrow> bool" where
  "matches_scope g journey_id state_name =
     (case scope g of
        GLOBAL \<Rightarrow> True
      | JOURNEY \<Rightarrow> journey_id_g g = journey_id
      | STATE \<Rightarrow> journey_id_g g = journey_id \<and> state_name_g g = state_name)"

definition scope_priority :: "GuidelineScope \<Rightarrow> int" where
  "scope_priority s = (case s of STATE \<Rightarrow> 3000 | JOURNEY \<Rightarrow> 2000 | GLOBAL \<Rightarrow> 1000)"

definition get_priority_score :: "Guideline \<Rightarrow> uuid option \<Rightarrow> string option \<Rightarrow> int" where
  "get_priority_score g journey_id state_name =
     (if \<not> matches_scope g journey_id state_name then 0
      else scope_priority (scope g) + priority_g g)"

text \<open>
  The dataclass \<^verbatim>\<open>GuidelineMatch\<close>.  \<open>confidence\<close> holds the numeric value of the number
  the model returned; \<open>reasoning\<close> is whatever value the reply carried.
\<close>

record GuidelineMatch =
  guideline :: Guideline
  confidence :: real
  reasoning :: json

definition GuidelineMatch_post_init :: "GuidelineMatch \<Rightarrow> error + GuidelineMatch" where
  "GuidelineMatch_post_init m =
     (if \<not> (0 \<le> confidence m \<and> confidence m \<le> 1)
      then Inl (ValueError ''Confidence must be between 0.0 and 1.0'')
      else Inr m)"

section \<open>Guideline loader (\<^verbatim>\<open>guideline/loader.py\<close>)\<close>

text \<open>
  \<^verbatim>\<open>GuidelineLoader.validate_guideline_schema\<close> on one entry of the YAML \<^verbatim>\<open>guidelines\<close>
  list.  \<open>None\<close> is a normal return, \<open>Some e\<close> the exception raised.  \<^verbatim>\<open>isinstance(x, int)\<close>
  holds for \<^verbatim>\<open>bool\<close> as well.
\<close>

definition has_key :: "pydict \<Rightarrow> string \<Rightarrow> bool" where
  "has_key d k = (map_of d k \<noteq> None)"

fun is_list :: "json \<Rightarrow> bool" where
  "is_list (JArr xs) = True"
| "is_list _ = False"

fun is_int :: "json \<Rightarrow> bool" where
  "is_int (JInt i) = True"
| "is_int (JBool b) = True"
| "is_int _ = False"

fun first_missing :: "pydict \<Rightarrow> string list \<Rightarrow> string option" where
  "first_missing d [] = None"
| "first_missing d (f # fs) = (if \<not> has_key d f then Some f else first_missing d fs)"

definition validate_guideline_schema :: "pydict \<Rightarrow> error option" where
  "validate_guideline_schema data =
     (case first_missing data [''name'', ''scope'', ''condition'', ''action''] of
        Some f \<Rightarrow> Some (GuidelineValidationError (''Missing required field: '' @ f))
      | None \<Rightarrow>
        if py_get data ''scope'' \<notin> set [JStr ''GLOBAL'', JStr ''JOURNEY'', JStr ''STATE'']
          then Some (GuidelineValidationError ''Invalid scope'')
        else if py_get data ''scope'' = JStr ''JOURNEY'' \<and> \<not> has_key data ''journey_name''
          then Some (GuidelineValidationError ''JOURNEY scope requires journey_name field'')
        else if py_get data ''scope'' = JStr ''STATE'' \<and> \<not> has_key data ''journey_name''
          then Some (GuidelineValidationError ''STATE scope requires journey_name field'')
        else if py_get data ''scope'' = JStr ''STATE'' \<and> \<not> has_key data ''state_name''
          then Some (GuidelineValidationError ''STATE scope requires state_name field'')
        else if has_key data ''keywords'' \<and> \<not> is_list (py_get data ''keywords'')
          then Some (GuidelineValidationError ''keywords must be a list'')
        else if has_key data ''tools'' \<and> \<not> is_list (py_get data ''tools'')
          then Some (GuidelineValidationError ''tools must be a list'')
        else if has_key data ''priority'' \<and> \<not> is_int (py_get data ''priority'')
          then Some (GuidelineValidationError ''priority must be an integer'')
        else None)"

section \<open>Model calls\<close>

text \<open>
  Every structured model call is \<^verbatim>\<open>await self.openai.chat.completions.create(...)\<close>
  followed by \<^verbatim>\<open>json.loads(response.choices[0].message.content)\<close>, both inside the
  caller's \<^verbatim>\<open>try\<close>.  The outcome of the two together is an input of the model:
  \<open>LLM_failure\<close> when either raises (transport error, missing content, text that is not
  JSON), \<open>LLM_reply v\<close> when \<^verbatim>\<open>json.loads\<close> returns \<open>v\<close>.  The prompt only reaches the
  remote model, so the functions below do not build it.
\<close>

datatype llm_outcome = LLM_failure | LLM_reply json

section \<open>Journey models (\<^verbatim>\<open>journey/models.py\<close>)\<close>

record JourneyState =
  name_s :: string
  action_s :: string
  tools_s :: "string list"
  metadata_s :: pydict

record JourneyTransition =
  from_state :: string
  to_state :: string
  condition_t :: string
  priority_t :: int

record Journey =
  id_j :: uuid
  name_j :: string
  description_j :: "string option"
  activation_conditions :: string
  initial_state :: string
  states :: "(string \<times> JourneyState) list"
  transitions :: "JourneyTransition list"
  enabled_j :: bool

text \<open>
  State names that come out of a model reply are whatever JSON value the reply held, and
  Python stores them unchecked, so a state name at run time is a \<open>json\<close> value.
  \<^verbatim>\<open>self.states.get(state_name)\<close>: a string is looked up, a list or a dict is unhashable
  (\<^verbatim>\<open>TypeError\<close>), any other value equals no key.
\<close>

fun get_state :: "Journey \<Rightarrow> json \<Rightarrow> error + JourneyState option" where
  "get_state j (JStr s) = Inr (map_of (states j) s)"
| "get_state j (JArr xs) = Inl TypeError"
| "get_state j (JObj kvs) = Inl TypeError"
| "get_state j v = Inr None"

definition get_transitions_from :: "Journey \<Rightarrow> json \<Rightarrow> JourneyTransition list" where
  "get_transitions_from j state_name =
     filter (\<lambda>t. JStr (from_state t) = state_name) (transitions j)"

text \<open>
  The dataclass \<^verbatim>\<open>JourneyContext\<close>.  A history event is a dict; timestamps in events are
  the ISO string of a clock reading, which is an input (\<open>now_iso\<close>).
\<close>

record JourneyContext =
  id_c :: uuid
  session_id :: string
  journey_id_c :: uuid
  journey_name :: string
  current_state :: json
  variables :: pydict
  state_history :: "pydict list"
  activated_at :: "datetime option"
  completed_at :: "datetime option"
  created_at :: "datetime option"
  updated_at :: "datetime option"

text \<open>\<^verbatim>\<open>{**d, k: v}\<close> and \<^verbatim>\<open>d[k] = v\<close>: an existing key keeps its place, a new one goes last.\<close>

fun dict_set :: "pydict \<Rightarrow> string \<Rightarrow> json \<Rightarrow> pydict" where
  "dict_set [] k v = [(k, v)]"
| "dict_set ((k', v') # d) k v = (if k' = k then (k, v) # d else (k', v') # dict_set d k v)"

definition is_active :: "JourneyContext \<Rightarrow> bool" where
  "is_active c = (completed_at c = None)"

definition add_to_history :: "pydict \<Rightarrow> string \<Rightarrow> JourneyContext \<Rightarrow> JourneyContext" where
  "add_to_history event now_iso c =
     c\<lparr>state_history := state_history c @ [dict_set event ''timestamp'' (JStr now_iso)]\<rparr>"

definition transition_to :: "json \<Rightarrow> string \<Rightarrow> string \<Rightarrow> JourneyContext \<Rightarrow> JourneyContext" where
  "transition_to new_state reason now_iso c =
     (add_to_history
        [(''event'', JStr ''state_transition''), (''from_state'', current_state c),
         (''to_state'', new_state), (''reason'', JStr reason)] now_iso c)
     \<lparr>current_state := new_state\<rparr>"

text \<open>
  \<^verbatim>\<open>JourneyContext.complete\<close> reads the clock twice: \<open>now\<close> for \<^verbatim>\<open>completed_at\<close> and
  \<open>now_iso\<close> inside \<^verbatim>\<open>add_to_history\<close>.
\<close>

definition complete :: "datetime \<Rightarrow> string \<Rightarrow> JourneyContext \<Rightarrow> JourneyContext" where
  "complete now now_iso c =
     add_to_history
       [(''event'', JStr ''journey_completed''), (''final_state'', current_state c)] now_iso
       (c\<lparr>completed_at := Some now\<rparr>)"

section \<open>Journey store (\<^verbatim>\<open>journey/store.py\<close>)\<close>

text \<open>
  The table \<^verbatim>\<open>journey_contexts\<close>, keyed by its primary key.  \<^verbatim>\<open>update_context\<close> stamps
  \<^verbatim>\<open>updated_at\<close> on the object and then runs one \<^verbatim>\<open>UPDATE\<close>; \<open>db_ok\<close> says whether
  \<^verbatim>\<open>self.db.execute\<close> returns (otherwise its exception propagates, the object already
  stamped).  The result is the exception if any, the context object and the table.
\<close>

type_synonym contexts_table = "uuid \<rightharpoonup> JourneyContext"

definition update_context ::
  "datetime \<Rightarrow> bool \<Rightarrow> contexts_table \<Rightarrow> JourneyContext
     \<Rightarrow> error option \<times> JourneyContext \<times> contexts_table" where
  "update_context now db_ok tbl c =
     (let c' = c\<lparr>updated_at := Some now\<rparr> in
      if \<not> db_ok then (Some DatabaseError, c', tbl)
      else (None, c',
        (case tbl (id_c c') of
           None \<Rightarrow> tbl
         | Some row \<Rightarrow> tbl(id_c c' \<mapsto> row\<lparr>current_state := current_state c',
             variables := variables c', state_history := state_history c',
             completed_at := completed_at c', updated_at := updated_at c'\<rparr>))))"

section \<open>Journey matcher (\<^verbatim>\<open>journey/matcher.py\<close>)\<close>

text \<open>
  \<^verbatim>\<open>JourneyMatcher.can_transition\<close>.  \<^verbatim>\<open>user_message\<close> and \<^verbatim>\<open>context_variables\<close> only
  reach the prompt.  \<^verbatim>\<open>result.get\<close> on a reply that is not a JSON object raises
  \<^verbatim>\<open>AttributeError\<close> inside the \<^verbatim>\<open>try\<close>, which the blanket handler turns into \<^verbatim>\<open>None\<close>.
\<close>

definition can_transition :: "Journey \<Rightarrow> json \<Rightarrow> llm_outcome \<Rightarrow> json option" where
  "can_transition journey cur llm =
     (if get_transitions_from journey cur = [] then None
      else case llm of
        LLM_failure \<Rightarrow> None
      | LLM_reply (JObj result) \<Rightarrow>
          (if truthy (py_get result ''should_transition'') \<and> truthy (py_get result ''to_state'')
           then Some (py_get result ''to_state'')
           else None)
      | LLM_reply _ \<Rightarrow> None)"

section \<open>Journey engine (\<^verbatim>\<open>journey/engine.py\<close>)\<close>

definition execute_transition ::
  "json \<Rightarrow> string \<Rightarrow> string \<Rightarrow> datetime \<Rightarrow> bool \<Rightarrow> contexts_table \<Rightarrow> JourneyContext
     \<Rightarrow> error option \<times> JourneyContext \<times> contexts_table" where
  "execute_transition target_state reason now_iso now db_ok tbl c =
     update_context now db_ok tbl (transition_to target_state reason now_iso c)"

definition complete_journey ::
  "datetime \<Rightarrow> string \<Rightarrow> datetime \<Rightarrow> bool \<Rightarrow> contexts_table \<Rightarrow> JourneyContext
     \<Rightarrow> error option \<times> JourneyContext \<times> contexts_table" where
  "complete_journey now now_iso now' db_ok tbl c =
     (if \<not> is_active c then (None, c, tbl)
      else update_context now' db_ok tbl (complete now now_iso c))"

text \<open>
  \<^verbatim>\<open>JourneyEngine.process_message\<close> from the point where the active context and its journey
  definition are loaded (the statements after \<^verbatim>\<open># Get current state\<close>): resolve the
  current state, ask \<^verbatim>\<open>can_transition\<close>, execute the transition.  The result is the
  exception or the pair (state, \<^verbatim>\<open>metadata["transition_occurred"]\<close>), together with the
  context object, which is mutated in place, and the table.
\<close>

definition process_message_from_context ::
  "Journey \<Rightarrow> string \<Rightarrow> llm_outcome \<Rightarrow> string \<Rightarrow> datetime \<Rightarrow> bool \<Rightarrow> contexts_table
     \<Rightarrow> JourneyContext
     \<Rightarrow> (error + JourneyState option \<times> bool) \<times> JourneyContext \<times> contexts_table" where
  "process_message_from_context journey user_message llm now_iso now db_ok tbl c =
     (case get_state journey (current_state c) of
        Inl e \<Rightarrow> (Inl e, c, tbl)
      | Inr None \<Rightarrow> (Inr (None, False), c, tbl)
      | Inr (Some st) \<Rightarrow>
          (case can_transition journey (current_state c) llm of
             None \<Rightarrow> (Inr (Some st, False), c, tbl)
           | Some target_state \<Rightarrow>
               (case execute_transition target_state user_message now_iso now db_ok tbl c of
                  (Some e, c', tbl') \<Rightarrow> (Inl e, c', tbl')
                | (None, c', tbl') \<Rightarrow>
                    (case get_state journey target_state of
                       Inl e \<Rightarrow> (Inl e, c', tbl')
                     | Inr st' \<Rightarrow> (Inr (st', True), c', tbl')))))"

section \<open>Guideline store (\<^verbatim>\<open>guideline/store.py\<close>)\<close>

text \<open>
  The store reads three things: the rows of table \<^verbatim>\<open>guidelines\<close> (columns as the fields
  of \<open>Guideline\<close>, not yet validated), the L1 cache entries \<^verbatim>\<open>guideline:def:<id>\<close>
  (a cache read that fails is a miss, as \<^verbatim>\<open>RedisClient.get\<close> swallows the error), and the
  in-memory \<^verbatim>\<open>_keyword_index\<close>.  \<open>db_up\<close> says whether a query returns rather than
  raises.
\<close>

record GuidelineStore =
  guidelines_tbl :: "Guideline list"
  l1_cache :: "uuid \<rightharpoonup> Guideline"
  keyword_index :: "string \<rightharpoonup> uuid set"
  db_up :: bool

text \<open>
  Utterances are ASCII text here.  \<^verbatim>\<open>str.lower\<close> and the class \<^verbatim>\<open>\w\<close> are Python's on
  that range; any other character is left unchanged and is not a word character.
\<close>

definition lower_char :: "char \<Rightarrow> char" where
  "lower_char c =
     (case map_of (zip ''ABCDEFGHIJKLMNOPQRSTUVWXYZ'' ''abcdefghijklmnopqrstuvwxyz'') c of
        Some l \<Rightarrow> l
      | None \<Rightarrow> c)"

definition lower :: "string \<Rightarrow> string" where
  "lower s = map lower_char s"

definition is_word_char :: "char \<Rightarrow> bool" where
  "is_word_char c =
     (c \<in> set ''abcdefghijklmnopqrstuvwxyzABCDEFGHIJKLMNOPQRSTUVWXYZ0123456789_'')"

text \<open>
  \<^verbatim>\<open>re.findall(r'\b\w+\b', s)\<close>: the maximal runs of word characters, left to right.
  \<open>cur\<close> is the run being read.
\<close>

fun findall_words :: "string \<Rightarrow> string \<Rightarrow> string list" where
  "findall_words cur [] = (if cur = [] then [] else [cur])"
| "findall_words cur (c # cs) =
     (if is_word_char c then findall_words (cur @ [c]) cs
      else (if cur = [] then [] else [cur]) @ findall_words [] cs)"

definition stopwords :: "string list" where
  "stopwords =
     [''the'', ''a'', ''an'', ''and'', ''or'', ''but'', ''is'', ''are'', ''was'', ''were'',
      ''be'', ''been'', ''being'', ''have'', ''has'', ''had'', ''do'', ''does'', ''did'',
      ''will'', ''would'', ''should'', ''could'', ''may'', ''might'', ''can'', ''i'',
      ''you'', ''he'', ''she'', ''it'', ''we'', ''they'', ''my'', ''your'', ''his'', ''her'',
      ''its'', ''our'', ''their'', ''this'', ''that'', ''these'', ''those'']"

definition extract_keywords :: "string \<Rightarrow> nat \<Rightarrow> string list" where
  "extract_keywords message min_length =
     filter (\<lambda>w. length w \<ge> min_length \<and> w \<notin> set stopwords)
       (findall_words [] (lower message))"

fun get_candidates_by_keywords :: "(string \<rightharpoonup> uuid set) \<Rightarrow> string list \<Rightarrow> uuid set" where
  "get_candidates_by_keywords idx [] = {}"
| "get_candidates_by_keywords idx (keyword # rest) =
     (case idx (lower keyword) of None \<Rightarrow> {} | Some ids \<Rightarrow> ids)
       \<union> get_candidates_by_keywords idx rest"

text \<open>
  SQL equality of a column with a parameter: never true when either side is \<^verbatim>\<open>NULL\<close>.
\<close>

definition sql_eq :: "'a option \<Rightarrow> 'a option \<Rightarrow> bool" where
  "sql_eq col param = (col \<noteq> None \<and> col = param)"

definition row_in_scope :: "uuid option \<Rightarrow> string option \<Rightarrow> Guideline \<Rightarrow> bool" where
  "row_in_scope journey_id state_name r =
     (enabled_g r \<and>
      (scope r = GLOBAL
       \<or> (scope r = JOURNEY \<and> sql_eq (journey_id_g r) journey_id)
       \<or> (scope r = STATE \<and> sql_eq (journey_id_g r) journey_id
            \<and> sql_eq (state_name_g r) state_name)))"

text \<open>Each selected row goes through the dataclass constructor; the first failure propagates.\<close>

fun construct_all :: "Guideline list \<Rightarrow> error + Guideline list" where
  "construct_all [] = Inr []"
| "construct_all (r # rs) =
     (case Guideline_post_init r of
        Inl e \<Rightarrow> Inl e
      | Inr g \<Rightarrow> (case construct_all rs of Inl e \<Rightarrow> Inl e | Inr gs \<Rightarrow> Inr (g # gs)))"

text \<open>
  \<^verbatim>\<open>ORDER BY priority DESC, name\<close>, with names compared character by character.
\<close>

definition get_guidelines_by_scope ::
  "GuidelineStore \<Rightarrow> uuid option \<Rightarrow> string option \<Rightarrow> error + Guideline list" where
  "get_guidelines_by_scope store journey_id state_name =
     (if \<not> db_up store then Inl DatabaseError
      else construct_all
        (sort_key (\<lambda>r. (- priority_g r, name_g r))
           (filter (row_in_scope journey_id state_name) (guidelines_tbl store))))"

definition get_guideline :: "GuidelineStore \<Rightarrow> uuid \<Rightarrow> error + Guideline option" where
  "get_guideline store guideline_id =
     (case l1_cache store guideline_id of
        Some cached \<Rightarrow> map_sum id Some (Guideline_post_init cached)
      | None \<Rightarrow>
          if \<not> db_up store then Inl DatabaseError
          else (case find (\<lambda>r. id_g r = guideline_id \<and> enabled_g r) (guidelines_tbl store) of
                  None \<Rightarrow> Inr None
                | Some row \<Rightarrow> map_sum id Some (Guideline_post_init row)))"

fun get_guidelines_by_ids :: "GuidelineStore \<Rightarrow> uuid list \<Rightarrow> error + Guideline list" where
  "get_guidelines_by_ids store [] = Inr []"
| "get_guidelines_by_ids store (i # ids) =
     (case get_guideline store i of
        Inl e \<Rightarrow> Inl e
      | Inr go \<Rightarrow>
          (case get_guidelines_by_ids store ids of
             Inl e \<Rightarrow> Inl e
           | Inr gs \<Rightarrow> Inr ((case go of None \<Rightarrow> [] | Some g \<Rightarrow> [g]) @ gs)))"

section \<open>Guideline matcher (\<^verbatim>\<open>guideline/matcher.py\<close>)\<close>

text \<open>
  What a \<^verbatim>\<open>for\<close> loop iterates over: the elements of a list, the characters of a string,
  the keys of a dict; any other JSON value is not iterable.
\<close>

fun py_iter :: "json \<Rightarrow> error + json list" where
  "py_iter (JArr xs) = Inr xs"
| "py_iter (JStr s) = Inr (map (\<lambda>c. JStr [c]) s)"
| "py_iter (JObj kvs) = Inr (map (\<lambda>kv. JStr (fst kv)) kvs)"
| "py_iter _ = Inl TypeError"

text \<open>
  One pass of the loop body of \<^verbatim>\<open>_batch_evaluate_guidelines\<close> on a verdict: the exception
  raised, or the match appended (if any).  \<open>UUID\<close> is the library constructor
  \<^verbatim>\<open>uuid.UUID(s)\<close>, \<open>None\<close> where it raises \<^verbatim>\<open>ValueError\<close>.  The threshold is the literal
  \<^verbatim>\<open>0.6\<close>.
\<close>

definition evaluate_verdict ::
  "(string \<Rightarrow> uuid option) \<Rightarrow> Guideline list \<Rightarrow> json \<Rightarrow> error + GuidelineMatch option" where
  "evaluate_verdict UUID candidates match_data =
     (case match_data of
        JObj md \<Rightarrow>
          if \<not> truthy (get_default md ''applies'' (JBool False)) then Inr None
          else (case map_of md ''guideline_id'' of
                  None \<Rightarrow> Inl (KeyError ''guideline_id'')
                | Some (JStr s) \<Rightarrow>
                    (case UUID s of
                       None \<Rightarrow> Inl (ValueError ''badly formed hexadecimal UUID string'')
                     | Some guideline_id \<Rightarrow>
                         (case find (\<lambda>g. id_g g = guideline_id) candidates of
                            None \<Rightarrow> Inr None
                          | Some g \<Rightarrow>
                              (case num_value (get_default md ''confidence'' (JInt 0)) of
                                 None \<Rightarrow> Inl TypeError
                               | Some c \<Rightarrow>
                                   if c \<ge> 0.6
                                   then map_sum id Some
                                     (GuidelineMatch_post_init
                                        \<lparr>guideline = g, confidence = c,
                                         reasoning = get_default md ''reasoning'' (JStr [])\<rparr>)
                                   else Inr None)))
                | Some JNull \<Rightarrow> Inl TypeError
                | Some _ \<Rightarrow> Inl AttributeError)
      | _ \<Rightarrow> Inl AttributeError)"

fun collect_matches ::
  "(string \<Rightarrow> uuid option) \<Rightarrow> Guideline list \<Rightarrow> json list \<Rightarrow> GuidelineMatch list
     \<Rightarrow> error + GuidelineMatch list" where
  "collect_matches UUID candidates [] matches = Inr matches"
| "collect_matches UUID candidates (match_data # rest) matches =
     (case evaluate_verdict UUID candidates match_data of
        Inl e \<Rightarrow> Inl e
      | Inr None \<Rightarrow> collect_matches UUID candidates rest matches
      | Inr (Some m) \<Rightarrow> collect_matches UUID candidates rest (matches @ [m]))"

text \<open>
  \<^verbatim>\<open>_batch_evaluate_guidelines\<close>: everything after the prompt is inside one \<^verbatim>\<open>try\<close> whose
  handler returns \<^verbatim>\<open>[]\<close>.
\<close>

definition batch_evaluate_guidelines ::
  "(string \<Rightarrow> uuid option) \<Rightarrow> Guideline list \<Rightarrow> llm_outcome \<Rightarrow> GuidelineMatch list" where
  "batch_evaluate_guidelines UUID candidates llm =
     (case llm of
        LLM_failure \<Rightarrow> []
      | LLM_reply (JObj result) \<Rightarrow>
          (case py_iter (get_default result ''matches'' (JArr [])) of
             Inl e \<Rightarrow> []
           | Inr items \<Rightarrow>
               (case collect_matches UUID candidates items [] of
                  Inl e \<Rightarrow> []
                | Inr matches \<Rightarrow> matches))
      | LLM_reply _ \<Rightarrow> [])"

text \<open>
  \<^verbatim>\<open>list.sort(key=..., reverse=True)\<close>: CPython reverses the list, sorts it stably in
  ascending key order and reverses the result.
\<close>

definition sort_reverse :: "('a \<Rightarrow> int) \<Rightarrow> 'a list \<Rightarrow> 'a list" where
  "sort_reverse key xs = rev (sort_key key (rev xs))"

text \<open>
  Stage 1 of \<^verbatim>\<open>match_guidelines\<close> (up to \<^verbatim>\<open>candidates = ...\<close>).  Python holds
  \<^verbatim>\<open>relevant_ids\<close> in a set, iterated in hash order; here the ids are listed in the order
  of \<^verbatim>\<open>scope_guidelines\<close>.  The order only decides how the prompt lists the candidates.
\<close>

definition stage1_candidates ::
  "GuidelineStore \<Rightarrow> string \<Rightarrow> uuid option \<Rightarrow> string option \<Rightarrow> error + Guideline list" where
  "stage1_candidates store user_message journey_id state_name =
     (let message_keywords = extract_keywords user_message 3;
          candidate_ids = get_candidates_by_keywords (keyword_index store) message_keywords
      in case get_guidelines_by_scope store journey_id state_name of
           Inl e \<Rightarrow> Inl e
         | Inr scope_guidelines \<Rightarrow>
             (let relevant_ids =
                    remdups (filter (\<lambda>i. i \<in> candidate_ids) (map id_g scope_guidelines));
                  relevant_ids' =
                    (if relevant_ids = [] \<and> scope_guidelines \<noteq> []
                     then remdups (map id_g (take 20 scope_guidelines))
                     else relevant_ids)
              in get_guidelines_by_ids store relevant_ids'))"

definition match_guidelines ::
  "(string \<Rightarrow> uuid option) \<Rightarrow> GuidelineStore \<Rightarrow> string \<Rightarrow> uuid option \<Rightarrow> string option
     \<Rightarrow> llm_outcome \<Rightarrow> error + GuidelineMatch list" where
  "match_guidelines UUID store user_message journey_id state_name llm =
     (case stage1_candidates store user_message journey_id state_name of
        Inl e \<Rightarrow> Inl e
      | Inr candidates \<Rightarrow>
          if candidates = [] then Inr []
          else Inr (sort_reverse
                 (\<lambda>m. get_priority_score (guideline m) journey_id state_name)
                 (batch_evaluate_guidelines UUID candidates llm)))"

section \<open>Response validator (\<^verbatim>\<open>validator/post_validator.py\<close>)\<close>

text \<open>
  A \<^verbatim>\<open>ValidationResult\<close> stores what the reply held, unchecked, so its fields are JSON
  values.  The constructor replaces a falsy \<^verbatim>\<open>suggested_fixes\<close> by \<^verbatim>\<open>[]\<close>.
\<close>

record ValidationResult =
  is_valid :: json
  violations :: json
  confidence_v :: json
  suggested_fixes :: json
  fixed_response :: "string option"

definition ValidationResult_init ::
  "json \<Rightarrow> json \<Rightarrow> json \<Rightarrow> json \<Rightarrow> string option \<Rightarrow> ValidationResult" where
  "ValidationResult_init iv vs conf fixes fixed =
     \<lparr>is_valid = iv, violations = vs, confidence_v = conf,
      suggested_fixes = (if truthy fixes then fixes else JArr []), fixed_response = fixed\<rparr>"

text \<open>One row of table \<^verbatim>\<open>validation_audit\<close> (\<^verbatim>\<open>created_at\<close> is filled in by the database).\<close>

record audit_row =
  audit_id :: uuid
  session_id_a :: string
  journey_id_a :: "uuid option"
  guideline_ids_a :: "uuid list"
  is_valid_a :: json
  violations_a :: json
  suggested_fixes_a :: json
  confidence_a :: json
  latency_ms_a :: int
  original_response_a :: string
  fixed_response_a :: "string option"

text \<open>
  The caller's \<^verbatim>\<open>context\<close> is a \<^verbatim>\<open>Dict[str, Any]\<close>: a value is JSON data or some other
  Python object, which \<^verbatim>\<open>json.dumps\<close> rejects with \<^verbatim>\<open>TypeError\<close>.
\<close>

datatype pyobj = Json json | Opaque

definition serializable :: "(string \<times> pyobj) list option \<Rightarrow> bool" where
  "serializable context =
     (case context of None \<Rightarrow> True | Some d \<Rightarrow> list_all (\<lambda>kv. snd kv \<noteq> Opaque) d)"

fun py_len :: "json \<Rightarrow> error + nat" where
  "py_len (JStr s) = Inr (length s)"
| "py_len (JArr xs) = Inr (length xs)"
| "py_len (JObj kvs) = Inr (length kvs)"
| "py_len _ = Inl TypeError"

definition is_space :: "char \<Rightarrow> bool" where
  "is_space c =
     (c \<in> set [CHR 0x09, CHR 0x0A, CHR 0x0B, CHR 0x0C, CHR 0x0D,
               CHR 0x1C, CHR 0x1D, CHR 0x1E, CHR 0x1F, CHR 0x20])"

definition strip :: "string \<Rightarrow> string" where
  "strip s = rev (dropWhile is_space (rev (dropWhile is_space s)))"

text \<open>
  \<^verbatim>\<open>_attempt_auto_fix\<close>: the outcome of the free-form correction call is \<open>Some text\<close> (the
  reply's content) or \<open>None\<close> (the call raised, or the content was missing); every
  exception is caught and gives \<^verbatim>\<open>None\<close>.
\<close>

definition attempt_auto_fix :: "string option \<Rightarrow> string option" where
  "attempt_auto_fix fix_llm = (case fix_llm of None \<Rightarrow> None | Some content \<Rightarrow> Some (strip content))"

text \<open>
  \<^verbatim>\<open>_log_validation\<close>: one \<^verbatim>\<open>INSERT\<close>; \<open>db_ok\<close> says whether it returns.  Its exception is
  caught and logged, never raised.  \<open>new_id\<close> is the value of \<^verbatim>\<open>uuid7()\<close>.
\<close>

definition log_validation ::
  "string \<Rightarrow> uuid option \<Rightarrow> uuid list \<Rightarrow> string \<Rightarrow> ValidationResult \<Rightarrow> int \<Rightarrow> uuid \<Rightarrow> bool
     \<Rightarrow> audit_row list \<Rightarrow> audit_row list" where
  "log_validation sid journey_id guideline_ids original_response result latency_ms
       new_id db_ok audit =
     (if db_ok
      then audit @
        [\<lparr>audit_id = new_id, session_id_a = sid, journey_id_a = journey_id,
          guideline_ids_a = guideline_ids, is_valid_a = is_valid result,
          violations_a = violations result, suggested_fixes_a = suggested_fixes result,
          confidence_a = confidence_v result, latency_ms_a = latency_ms,
          original_response_a = original_response,
          fixed_response_a = fixed_response result\<rparr>]
      else audit)"

text \<open>
  \<^verbatim>\<open>validate_response\<close>.  \<open>elapsed_ms\<close> is the measured latency
  \<^verbatim>\<open>int((datetime.utcnow() - start_time).total_seconds() * 1000)\<close>, a function of two clock
  readings computed in floating point and taken as an input.  The prompt is built before
  the \<^verbatim>\<open>try\<close>, so a context that \<^verbatim>\<open>json.dumps\<close> rejects raises out of the function; every
  later exception (also \<^verbatim>\<open>result.get\<close> on a reply that is not an object and \<^verbatim>\<open>len\<close> of an
  unsized \<^verbatim>\<open>violations\<close>) is caught by the handler that returns the default verdict.
\<close>

definition validate_response ::
  "string \<Rightarrow> Guideline list \<Rightarrow> string \<Rightarrow> uuid option \<Rightarrow> (string \<times> pyobj) list option
     \<Rightarrow> llm_outcome \<Rightarrow> string option \<Rightarrow> int \<Rightarrow> uuid \<Rightarrow> bool \<Rightarrow> audit_row list
     \<Rightarrow> (error + ValidationResult) \<times> audit_row list" where
  "validate_response response guidelines sid journey_id context llm fix_llm elapsed_ms
       new_id db_ok audit =
     (if guidelines = []
      then (Inr (ValidationResult_init (JBool True) (JArr []) (JFloat 1) JNull None), audit)
      else if \<not> serializable context then (Inl TypeError, audit)
      else case llm of
        LLM_failure \<Rightarrow>
          (Inr (ValidationResult_init (JBool True) (JArr []) (JFloat 0) JNull None), audit)
      | LLM_reply (JObj result) \<Rightarrow>
          (let validation_result =
                 ValidationResult_init
                   (get_default result ''is_valid'' (JBool True))
                   (get_default result ''violations'' (JArr []))
                   (get_default result ''confidence'' (JFloat 1))
                   (get_default result ''suggested_fixes'' (JArr [])) None;
               validation_result' =
                 (if \<not> truthy (is_valid validation_result)
                       \<and> truthy (suggested_fixes validation_result)
                  then validation_result\<lparr>fixed_response := attempt_auto_fix fix_llm\<rparr>
                  else validation_result)
           in case py_len (violations validation_result') of
                Inl e \<Rightarrow>
                  (Inr (ValidationResult_init (JBool True) (JArr []) (JFloat 0) JNull None),
                   audit)
              | Inr violations_count \<Rightarrow>
                  (Inr validation_result',
                   log_validation sid journey_id (map id_g guidelines) response
                     validation_result' elapsed_ms new_id db_ok audit))
      | LLM_reply _ \<Rightarrow>
          (Inr (ValidationResult_init (JBool True) (JArr []) (JFloat 0) JNull None), audit))"

section \<open>Tool registry and executor (\<^verbatim>\<open>tools/registry.py\<close>, \<^verbatim>\<open>tools/executor.py\<close>)\<close>

text \<open>
  Library functions the executor calls, as parameters: SHA-256 of the UTF-8 bytes as hex
  digits, the JSON encoder's string literal, \<^verbatim>\<open>float.__repr__\<close>, \<^verbatim>\<open>int.__repr__\<close>, and
  \<^verbatim>\<open>str()\<close> of a value that is not a string (as an f-string formats it).
\<close>

record pylib =
  sha256_hexdigest :: "string \<Rightarrow> string"
  encode_basestring_ascii :: "string \<Rightarrow> string"
  float_repr :: "real \<Rightarrow> string"
  int_repr :: "int \<Rightarrow> string"
  str_of :: "json \<Rightarrow> string"

fun join :: "string \<Rightarrow> string list \<Rightarrow> string" where
  "join sep [] = []"
| "join sep [x] = x"
| "join sep (x # y # ys) = x @ sep @ join sep (y # ys)"

text \<open>
  \<^verbatim>\<open>json.dumps(v, sort_keys=True)\<close> with the default separators.  The encoder writes the
  items of every dict, nested ones too, in the order of \<^verbatim>\<open>sorted(dct.items())\<close>; keys are
  strings and distinct, so that is the order of the keys, compared code point by code
  point.  Here the values are encoded first and the encoded items sorted by key, which
  gives the same text.
\<close>

fun dumps :: "pylib \<Rightarrow> json \<Rightarrow> string" where
  "dumps L JNull = ''null''"
| "dumps L (JBool b) = (if b then ''true'' else ''false'')"
| "dumps L (JInt i) = int_repr L i"
| "dumps L (JFloat r) = float_repr L r"
| "dumps L (JStr s) = encode_basestring_ascii L s"
| "dumps L (JArr xs) = ''['' @ join '', '' (map (dumps L) xs) @ '']''"
| "dumps L (JObj kvs) =
     ''{'' @ join '', ''
        (map (\<lambda>(k, s). encode_basestring_ascii L k @ '': '' @ s)
           (sort_key fst (map (\<lambda>(k, v). (k, dumps L v)) kvs))) @ ''}''"

definition compute_cache_key :: "pylib \<Rightarrow> string \<Rightarrow> pydict \<Rightarrow> string" where
  "compute_cache_key L tool_name arguments =
     (let args_str = dumps L (JObj arguments);
          args_hash = take 16 (sha256_hexdigest L args_str)
      in ''tool:result:'' @ tool_name @ '':'' @ args_hash)"

definition format_value :: "pylib \<Rightarrow> json \<Rightarrow> string" where
  "format_value L v = (case v of JStr s \<Rightarrow> s | _ \<Rightarrow> str_of L v)"

definition compute_rate_limit_key :: "pylib \<Rightarrow> string \<Rightarrow> json \<Rightarrow> string" where
  "compute_rate_limit_key L tool_name identifier =
     ''tool:ratelimit:'' @ tool_name @ '':'' @ format_value L identifier"

text \<open>
  What awaiting the tool's coroutine under \<^verbatim>\<open>asyncio.wait_for\<close> does: it returns a value,
  raises, or is still running when the timeout expires.
\<close>

datatype tool_behaviour = Returns json | Raises string | Hangs

text \<open>
  The rate-limit policy dict, written in the \<^verbatim>\<open>register\<close> decorator; an absent key is
  \<open>None\<close> and takes the default of the \<^verbatim>\<open>.get\<close> that reads it.  \<open>window\<close> is in seconds.
\<close>

record rate_limit_policy =
  max_calls :: "int option"
  window :: "int option"
  identifier_field :: "string option"

text \<open>
  \<^verbatim>\<open>ToolDefinition\<close>; \<^verbatim>\<open>description\<close> and \<^verbatim>\<open>parameters\<close>, which the executor never reads,
  are left out.
\<close>

record ToolDefinition =
  name_t :: string
  function_t :: "pydict \<Rightarrow> tool_behaviour"
  cache_ttl :: "int option"
  timeout :: int
  rate_limit :: "rate_limit_policy option"

text \<open>
  The key/value service as the executor sees it.  A rate-limit key holds only what this
  code writes (\<^verbatim>\<open>"1"\<close>, then the decimal integers \<^verbatim>\<open>INCR\<close> produces), so the model stores
  the integer, with the time at which the key expires if it has a TTL.  An L3 key holds
  the JSON text of a tool result, stored here decoded, with its expiry time.  Time is in
  seconds; a key is gone once the time reaches its expiry.  \<open>invocations\<close> records each
  call of a tool's underlying function.
\<close>

record executor_state =
  counters :: "string \<rightharpoonup> int \<times> nat option"
  l3 :: "string \<rightharpoonup> json \<times> nat"
  invocations :: "(string \<times> pydict) list"

text \<open>
  \<^verbatim>\<open>RedisClient.get\<close> and \<^verbatim>\<open>RedisClient.set\<close> swallow the errors of the service (\<open>kv_up\<close>
  false): a read is then a miss, a write stores nothing.  \<^verbatim>\<open>set\<close> uses \<^verbatim>\<open>SETEX\<close> when
  \<^verbatim>\<open>ttl\<close> is truthy, which the service refuses for a TTL that is not positive, and a plain
  \<^verbatim>\<open>SET\<close> otherwise.  \<^verbatim>\<open>self.redis.client.incr\<close> is called directly: its error propagates.
\<close>

definition redis_get :: "nat \<Rightarrow> bool \<Rightarrow> (string \<rightharpoonup> int \<times> nat option) \<Rightarrow> string \<Rightarrow> int option" where
  "redis_get now kv_up kv key =
     (if \<not> kv_up then None
      else case kv key of
        None \<Rightarrow> None
      | Some (v, None) \<Rightarrow> Some v
      | Some (v, Some expiry) \<Rightarrow> if now < expiry then Some v else None)"

definition redis_set ::
  "nat \<Rightarrow> bool \<Rightarrow> (string \<rightharpoonup> int \<times> nat option) \<Rightarrow> string \<Rightarrow> int \<Rightarrow> int
     \<Rightarrow> (string \<rightharpoonup> int \<times> nat option)" where
  "redis_set now kv_up kv key v ttl =
     (if \<not> kv_up then kv
      else if ttl = 0 then kv(key \<mapsto> (v, None))
      else if ttl < 0 then kv
      else kv(key \<mapsto> (v, Some (now + nat ttl))))"

definition redis_incr ::
  "nat \<Rightarrow> bool \<Rightarrow> (string \<rightharpoonup> int \<times> nat option) \<Rightarrow> string
     \<Rightarrow> error option \<times> (string \<rightharpoonup> int \<times> nat option)" where
  "redis_incr now kv_up kv key =
     (if \<not> kv_up then (Some RedisError, kv)
      else case kv key of
        None \<Rightarrow> (None, kv(key \<mapsto> (1, None)))
      | Some (v, None) \<Rightarrow> (None, kv(key \<mapsto> (v + 1, None)))
      | Some (v, Some expiry) \<Rightarrow>
          if now < expiry then (None, kv(key \<mapsto> (v + 1, Some expiry)))
          else (None, kv(key \<mapsto> (1, None))))"

definition check_rate_limit ::
  "pylib \<Rightarrow> ToolDefinition \<Rightarrow> pydict \<Rightarrow> nat \<Rightarrow> bool \<Rightarrow> (string \<rightharpoonup> int \<times> nat option)
     \<Rightarrow> error option \<times> (string \<rightharpoonup> int \<times> nat option)" where
  "check_rate_limit L tool_def arguments now kv_up kv =
     (case rate_limit tool_def of
        None \<Rightarrow> (None, kv)
      | Some rl \<Rightarrow>
          if max_calls rl = None \<and> window rl = None \<and> identifier_field rl = None
          then (None, kv)
          else
            (let field = (case identifier_field rl of None \<Rightarrow> ''phone'' | Some f \<Rightarrow> f);
                 identifier = py_get arguments field
             in if \<not> truthy identifier then (None, kv)
                else
                  (let rate_limit_key = compute_rate_limit_key L (name_t tool_def) identifier;
                       maxc = (case max_calls rl of None \<Rightarrow> 3 | Some m \<Rightarrow> m);
                       win = (case window rl of None \<Rightarrow> 3600 | Some w \<Rightarrow> w);
                       current_count =
                         (case redis_get now kv_up kv rate_limit_key of
                            None \<Rightarrow> 0 | Some n \<Rightarrow> n)
                   in if current_count \<ge> maxc then (Some RateLimitExceededError, kv)
                      else if current_count = 0
                        then (None, redis_set now kv_up kv rate_limit_key 1 win)
                      else redis_incr now kv_up kv rate_limit_key)))"

text \<open>
  \<^verbatim>\<open>get_l3\<close> and \<^verbatim>\<open>cache_l3\<close> on the key \<^verbatim>\<open>l3:<cache_key>\<close>; the TTL is 1800 seconds.  A
  stored \<^verbatim>\<open>null\<close> decodes to \<^verbatim>\<open>None\<close>, which \<^verbatim>\<open>execute\<close> reads as a miss.
\<close>

definition get_l3 :: "nat \<Rightarrow> bool \<Rightarrow> (string \<rightharpoonup> json \<times> nat) \<Rightarrow> string \<Rightarrow> json option" where
  "get_l3 now kv_up cache key =
     (if \<not> kv_up then None
      else case cache (''l3:'' @ key) of
        None \<Rightarrow> None
      | Some (v, expiry) \<Rightarrow> if now < expiry \<and> v \<noteq> JNull then Some v else None)"

definition cache_l3 ::
  "nat \<Rightarrow> bool \<Rightarrow> (string \<rightharpoonup> json \<times> nat) \<Rightarrow> string \<Rightarrow> json \<Rightarrow> (string \<rightharpoonup> json \<times> nat)" where
  "cache_l3 now kv_up cache key v =
     (if \<not> kv_up then cache else cache(''l3:'' @ key \<mapsto> (v, now + 1800)))"

definition cache_enabled :: "ToolDefinition \<Rightarrow> bool" where
  "cache_enabled tool_def = (cache_ttl tool_def \<noteq> None \<and> cache_ttl tool_def \<noteq> Some 0)"

text \<open>
  \<^verbatim>\<open>ToolExecutor.execute\<close> at time \<open>now\<close>.  The registry is the dict \<^verbatim>\<open>_tools\<close>.  The
  \<^verbatim>\<open>context\<close> argument is only logged.
\<close>

definition execute ::
  "pylib \<Rightarrow> (string \<rightharpoonup> ToolDefinition) \<Rightarrow> string \<Rightarrow> pydict \<Rightarrow> nat \<Rightarrow> bool \<Rightarrow> executor_state
     \<Rightarrow> (error + json) \<times> executor_state" where
  "execute L registry tool_name arguments now kv_up st =
     (case registry tool_name of
        None \<Rightarrow> (Inl (ToolExecutionError ''not found''), st)
      | Some tool_def \<Rightarrow>
          (case check_rate_limit L tool_def arguments now kv_up (counters st) of
             (Some e, kv') \<Rightarrow> (Inl e, st\<lparr>counters := kv'\<rparr>)
           | (None, kv') \<Rightarrow>
               (let st1 = st\<lparr>counters := kv'\<rparr>;
                    cache_key = compute_cache_key L tool_name arguments;
                    cached_result =
                      (if cache_enabled tool_def then get_l3 now kv_up (l3 st1) cache_key
                       else None)
                in case cached_result of
                     Some v \<Rightarrow> (Inr v, st1)
                   | None \<Rightarrow>
                       (let st2 = st1\<lparr>invocations := invocations st1 @ [(tool_name, arguments)]\<rparr>
                        in case function_t tool_def arguments of
                             Returns result \<Rightarrow>
                               (Inr result,
                                if cache_enabled tool_def
                                then st2\<lparr>l3 := cache_l3 now kv_up (l3 st2) cache_key result\<rparr>
                                else st2)
                           | Hangs \<Rightarrow> (Inl (ToolExecutionError ''timed out''), st2)
                           | Raises msg \<Rightarrow>
                               (Inl (ToolExecutionError (''execution failed: '' @ msg)), st2)))))"

section \<open>Vocabulary of the statements and example data\<close>

text \<open>
  The predicates in which the theorems below are stated, and the concrete data on which
  they are evaluated: first the \<^verbatim>\<open>claim_inquiry\<close> journey with the transition
  \<^verbatim>\<open>verify_identity\<close> to \<^verbatim>\<open>provide_status\<close>, a context of it, and a guideline.
\<close>

definition claim_inquiry :: Journey where
  "claim_inquiry =
     \<lparr>id_j = 1, name_j = ''claim_inquiry'', description_j = None,
      activation_conditions = ''customer asks about the status of a claim'',
      initial_state = ''verify_identity'',
      states =
        [(''verify_identity'',
            \<lparr>name_s = ''verify_identity'', action_s = ''ask for the policy number'',
             tools_s = [''verify_customer_identity''], metadata_s = []\<rparr>),
         (''provide_status'',
            \<lparr>name_s = ''provide_status'', action_s = ''tell the claim status'',
             tools_s = [''get_claim_status''], metadata_s = []\<rparr>)],
      transitions =
        [\<lparr>from_state = ''verify_identity'', to_state = ''provide_status'',
          condition_t = ''identity verified'', priority_t = 10\<rparr>],
      enabled_j = True\<rparr>"

definition example_context :: JourneyContext where
  "example_context =
     \<lparr>id_c = 5, session_id = ''call-1'', journey_id_c = 1, journey_name = ''claim_inquiry'',
      current_state = JStr ''verify_identity'', variables = [],
      state_history =
        [[(''event'', JStr ''journey_activated''), (''journey_name'', JStr ''claim_inquiry''),
          (''initial_state'', JStr ''verify_identity''),
          (''timestamp'', JStr ''2025-01-01T10:00:00'')]],
      activated_at = Some 0, completed_at = None, created_at = Some 0, updated_at = Some 0\<rparr>"

text \<open>A reply of the transition model that names a state the journey does not have.\<close>

definition undeclared_reply :: llm_outcome where
  "undeclared_reply =
     LLM_reply (JObj [(''should_transition'', JBool True), (''to_state'', JStr ''close_account''),
                      (''reasoning'', JStr ''the customer wants to close the account'')])"

definition example_guideline :: "GuidelineScope \<Rightarrow> uuid option \<Rightarrow> string option \<Rightarrow> Guideline" where
  "example_guideline sc jid sn =
     \<lparr>id_g = 1, scope = sc, name_g = ''No exact amounts'',
      description_g = None, condition_g = ''customer asks about a payout'',
      action_g = ''do not quote exact dollar amounts'', keywords_g = [''payout''],
      tools_g = [], priority_g = 50, enabled_g = True,
      journey_id_g = jid, state_name_g = sn\<rparr>"

text \<open>An entry of a YAML \<^verbatim>\<open>guidelines\<close> list: GLOBAL scope, yet naming a journey and a state.\<close>

definition example_yaml_entry :: pydict where
  "example_yaml_entry =
     [(''name'', JStr ''No exact amounts''), (''scope'', JStr ''GLOBAL''),
      (''condition'', JStr ''customer asks about a payout''),
      (''action'', JStr ''do not quote exact dollar amounts''),
      (''journey_name'', JStr ''claim_inquiry''), (''state_name'', JStr ''provide_status'')]"

text \<open>
  The scope invariant as the specification words it: JOURNEY has a journey id, STATE has
  a journey id and a state name, GLOBAL has neither.
\<close>

definition spec_scope_invariant :: "Guideline \<Rightarrow> bool" where
  "spec_scope_invariant g =
     (case scope g of
        JOURNEY \<Rightarrow> journey_id_g g \<noteq> None
      | STATE \<Rightarrow> journey_id_g g \<noteq> None \<and> state_name_g g \<noteq> None
      | GLOBAL \<Rightarrow> journey_id_g g = None \<and> state_name_g g = None)"

text \<open>
  The priority score of a match in a scope, and the tie-break the specification states:
  among matches of equal score, names ascend.
\<close>

definition score :: "uuid option \<Rightarrow> string option \<Rightarrow> GuidelineMatch \<Rightarrow> int" where
  "score journey_id state_name m = get_priority_score (guideline m) journey_id state_name"

definition ties_by_name :: "uuid option \<Rightarrow> string option \<Rightarrow> GuidelineMatch list \<Rightarrow> bool" where
  "ties_by_name journey_id state_name ms =
     sorted_wrt (\<lambda>a b. score journey_id state_name a = score journey_id state_name b
                   \<longrightarrow> name_g (guideline a) \<le> name_g (guideline b)) ms"

text \<open>
  Two enabled GLOBAL guidelines of equal priority, a store that holds them, a
  \<^verbatim>\<open>uuid.UUID\<close> for their ids, and verdicts of the batch model.
\<close>

definition example_UUID :: "string \<Rightarrow> uuid option" where
  "example_UUID s =
     map_of [(''00000000-0000-0000-0000-000000000011'', 11),
             (''00000000-0000-0000-0000-000000000012'', 12),
             (''00000000-0000-0000-0000-000000000013'', 13)] s"

definition named_guideline :: "uuid \<Rightarrow> string \<Rightarrow> Guideline" where
  "named_guideline i n =
     \<lparr>id_g = i, scope = GLOBAL, name_g = n, description_g = None,
      condition_g = ''customer asks for a refund'', action_g = ''explain the refund policy'',
      keywords_g = [''refund''], tools_g = [], priority_g = 10, enabled_g = True,
      journey_id_g = None, state_name_g = None\<rparr>"

definition example_store :: GuidelineStore where
  "example_store =
     \<lparr>guidelines_tbl = [named_guideline 11 ''alpha'', named_guideline 12 ''beta''],
      l1_cache = Map.empty,
      keyword_index = [''refund'' \<mapsto> {11, 12}],
      db_up = True\<rparr>"

definition verdict :: "string \<Rightarrow> real \<Rightarrow> json" where
  "verdict gid c =
     JObj [(''guideline_id'', JStr gid), (''applies'', JBool True),
           (''confidence'', JFloat c), (''reasoning'', JStr ''asks for a refund'')]"

definition batch_reply :: "json list \<Rightarrow> llm_outcome" where
  "batch_reply vs = LLM_reply (JObj [(''matches'', JArr vs)])"

definition v_alpha :: json where
  "v_alpha = verdict ''00000000-0000-0000-0000-000000000011'' 0.8"

definition v_beta :: json where
  "v_beta = verdict ''00000000-0000-0000-0000-000000000012'' 0.9"




definition m_alpha :: GuidelineMatch where
  "m_alpha = \<lparr>guideline = named_guideline 11 ''alpha'', confidence = 0.8,
              reasoning = JStr ''asks for a refund''\<rparr>"

definition m_beta :: GuidelineMatch where
  "m_beta = \<lparr>guideline = named_guideline 12 ''beta'', confidence = 0.9,
             reasoning = JStr ''asks for a refund''\<rparr>"

text \<open>Replies of the validation model: a clean verdict, and one violation with a fix.\<close>

definition valid_reply :: llm_outcome where
  "valid_reply =
     LLM_reply (JObj [(''is_valid'', JBool True), (''violations'', JArr []),
                      (''confidence'', JFloat 0.9), (''suggested_fixes'', JArr [])])"

definition violation_result :: pydict where
  "violation_result =
     [(''is_valid'', JBool False),
      (''violations'',
         JArr [JObj [(''guideline_id'', JStr ''00000000-0000-0000-0000-000000000001''),
                     (''guideline_name'', JStr ''No exact amounts''),
                     (''violation_description'', JStr ''quotes an exact amount''),
                     (''severity'', JStr ''high'')]]),
      (''confidence'', JFloat 0.95),
      (''suggested_fixes'', JArr [JStr ''omit the specific amount''])]"

text \<open>
  Two JSON values are the same value when they are identical, or lists of the same
  values, or dicts with the same keys bound to the same values, whatever the insertion
  order of the keys at any depth.
\<close>

inductive same_value :: "json \<Rightarrow> json \<Rightarrow> bool" where
  same: "same_value v v"
| arr: "list_all2 same_value xs ys \<Longrightarrow> same_value (JArr xs) (JArr ys)"
| obj: "distinct (map fst xs) \<Longrightarrow> distinct (map fst ys)
        \<Longrightarrow> fst ` set xs = fst ` set ys
        \<Longrightarrow> (\<forall>k v w. map_of xs k = Some v \<longrightarrow> map_of ys k = Some w \<longrightarrow> same_value v w)
        \<Longrightarrow> same_value (JObj xs) (JObj ys)"

text \<open>
  A sequence of calls of one tool, each with its arguments and its time, run one after
  the other against a functioning key/value service; the results in order and the final
  state.
\<close>

fun run_calls ::
  "pylib \<Rightarrow> (string \<rightharpoonup> ToolDefinition) \<Rightarrow> string \<Rightarrow> (pydict \<times> nat) list \<Rightarrow> executor_state
     \<Rightarrow> (error + json) list \<times> executor_state" where
  "run_calls L registry tool_name [] st = ([], st)"
| "run_calls L registry tool_name ((arguments, now) # calls) st =
     (case execute L registry tool_name arguments now True st of
        (r, st') \<Rightarrow>
          (case run_calls L registry tool_name calls st' of
             (rs, st'') \<Rightarrow> (r # rs, st'')))"

text \<open>The policy dict with all three keys written.\<close>

definition policy :: "int \<Rightarrow> int \<Rightarrow> string \<Rightarrow> rate_limit_policy" where
  "policy m w f = \<lparr>max_calls = Some m, window = Some w, identifier_field = Some f\<rparr>"

text \<open>
  Stand-ins for the library functions, and the tool \<^verbatim>\<open>verify_customer_identity\<close> with the
  policy of three calls per hour and phone number, registered with or without a cache TTL.
\<close>

definition example_lib :: pylib where
  "example_lib =
     \<lparr>sha256_hexdigest = (\<lambda>s. s), encode_basestring_ascii = (\<lambda>s. [CHR 0x22] @ s @ [CHR 0x22]),
      float_repr = (\<lambda>r. ''0.5''), int_repr = (\<lambda>i. if i = 1 then ''1'' else ''2''),
      str_of = (\<lambda>v. ''?'')\<rparr>"

definition verify_tool :: "int option \<Rightarrow> ToolDefinition" where
  "verify_tool ttl =
     \<lparr>name_t = ''verify_customer_identity'',
      function_t = (\<lambda>arguments. Returns (JObj [(''verified'', JBool True)])),
      cache_ttl = ttl, timeout = 5, rate_limit = Some (policy 3 3600 ''phone'')\<rparr>"

definition example_registry :: "int option \<Rightarrow> (string \<rightharpoonup> ToolDefinition)" where
  "example_registry ttl = [''verify_customer_identity'' \<mapsto> verify_tool ttl]"

definition empty_state :: executor_state where
  "empty_state = \<lparr>counters = Map.empty, l3 = Map.empty, invocations = []\<rparr>"

definition phone_args :: "string \<Rightarrow> pydict" where
  "phone_args p = [(''phone'', JStr p)]"

section \<open>Transitions chosen by the model\<close>

text \<open>
  Claim C1 says that \<^verbatim>\<open>can_transition\<close> returns a state name only when it is the target
  of a declared transition from the current state, so that \<^verbatim>\<open>current_state\<close> is always a
  state of the journey.  The code returns the reply's \<^verbatim>\<open>to_state\<close> without comparing it
  with the transitions it listed.  Evaluated on the \<^verbatim>\<open>claim_inquiry\<close> journey in state
  \<^verbatim>\<open>verify_identity\<close>, whose only transition goes to \<^verbatim>\<open>provide_status\<close>, with a reply
  naming \<^verbatim>\<open>close_account\<close>: \<^verbatim>\<open>can_transition\<close> returns \<^verbatim>\<open>close_account\<close>, which is no
  transition target and no state of the journey, and \<^verbatim>\<open>process_message\<close> executes the
  transition, returns no state, and leaves the context in \<^verbatim>\<open>close_account\<close>.
\<close>

theorem can_transition_undeclared_target:
  "can_transition claim_inquiry (JStr ''verify_identity'') undeclared_reply
     = Some (JStr ''close_account'')
   \<and> ''close_account''
       \<notin> set (map to_state (get_transitions_from claim_inquiry (JStr ''verify_identity'')))
   \<and> map_of (states claim_inquiry) ''close_account'' = None
   \<and> fst (process_message_from_context claim_inquiry ''close my account'' undeclared_reply
         ''2025-01-01T10:01:00'' 60 True [5 \<mapsto> example_context] example_context)
       = Inr (None, True)
   \<and> current_state (fst (snd (process_message_from_context claim_inquiry ''close my account''
         undeclared_reply ''2025-01-01T10:01:00'' 60 True [5 \<mapsto> example_context]
         example_context)))
       = JStr ''close_account''"
  by (simp add: can_transition_def get_transitions_from_def claim_inquiry_def
      undeclared_reply_def py_get_def get_default_def process_message_from_context_def
      example_context_def execute_transition_def update_context_def transition_to_def
      add_to_history_def Let_def)

section \<open>The scope invariant of guidelines\<close>

text \<open>
  Claim C4, as stated, fails for GLOBAL scope: the constructor accepts a GLOBAL guideline
  that carries a journey id and a state name, and the loader's schema check accepts the
  YAML entry that gives one.
\<close>

theorem global_guideline_with_journey_and_state:
  "Guideline_post_init (example_guideline GLOBAL (Some 7) (Some ''provide_status''))
     = Inr (example_guideline GLOBAL (Some 7) (Some ''provide_status''))
   \<and> \<not> spec_scope_invariant (example_guideline GLOBAL (Some 7) (Some ''provide_status''))
   \<and> validate_guideline_schema example_yaml_entry = None"
  by (simp add: Guideline_post_init_def example_guideline_def spec_scope_invariant_def
      validate_guideline_schema_def example_yaml_entry_def has_key_def py_get_def
      get_default_def)

text \<open>
  Claim C4, amended: a successfully constructed guideline is the one given; with scope
  JOURNEY its journey id is set, with scope STATE its journey id is set and its state
  name is set and not empty; a JOURNEY or STATE guideline that violates this is rejected
  with \<^verbatim>\<open>ValueError\<close>.  Nothing is required of a GLOBAL guideline.
\<close>

theorem Guideline_post_init_scope:
  "(Guideline_post_init g = Inr g' \<longrightarrow>
      g' = g
      \<and> (scope g = JOURNEY \<longrightarrow> journey_id_g g \<noteq> None)
      \<and> (scope g = STATE \<longrightarrow> journey_id_g g \<noteq> None \<and> \<not> not_str (state_name_g g)))
   \<and> ((scope g = JOURNEY \<and> journey_id_g g = None)
        \<or> (scope g = STATE \<and> (journey_id_g g = None \<or> not_str (state_name_g g)))
      \<longrightarrow> (\<exists>msg. Guideline_post_init g = Inl (ValueError msg)))"
  by (auto simp: Guideline_post_init_def split: if_splits)

theorem Guideline_post_init_scope_witness:
  "Guideline_post_init (example_guideline STATE (Some 7) (Some ''provide_status''))
     = Inr (example_guideline STATE (Some 7) (Some ''provide_status''))
   \<and> journey_id_g (example_guideline STATE (Some 7) (Some ''provide_status'')) \<noteq> None
   \<and> \<not> not_str (state_name_g (example_guideline STATE (Some 7) (Some ''provide_status'')))
   \<and> (\<exists>msg. Guideline_post_init (example_guideline JOURNEY None None) = Inl (ValueError msg))"
proof -
  let ?g = "example_guideline STATE (Some 7) (Some ''provide_status'')"
  have ok: "Guideline_post_init ?g = Inr ?g"
    by (simp add: Guideline_post_init_def example_guideline_def not_str_def)
  have sc: "scope ?g = STATE" by (simp add: example_guideline_def)
  have bad: "scope (example_guideline JOURNEY None None) = JOURNEY
      \<and> journey_id_g (example_guideline JOURNEY None None) = None"
    by (simp add: example_guideline_def)
  from Guideline_post_init_scope [of ?g ?g] ok sc
    Guideline_post_init_scope [of "example_guideline JOURNEY None None" ?g] bad
  show ?thesis by blast
qed

section \<open>Completing a journey\<close>

text \<open>
  Claim C8, as stated, fails for \<^verbatim>\<open>JourneyContext.complete\<close> itself, which has no guard:
  a second \<^verbatim>\<open>complete()\<close> on the same context overwrites \<^verbatim>\<open>completed_at\<close> with the new
  clock reading and appends a second \<^verbatim>\<open>journey_completed\<close> event, so it is not a no-op.
\<close>

theorem second_complete_changes_context:
  "completed_at (complete 90 ''2025-01-01T10:01:30'' example_context) = Some 90
   \<and> completed_at (complete 120 ''2025-01-01T10:02:00''
         (complete 90 ''2025-01-01T10:01:30'' example_context)) = Some 120
   \<and> length (state_history (complete 90 ''2025-01-01T10:01:30'' example_context)) = 2
   \<and> length (state_history (complete 120 ''2025-01-01T10:02:00''
         (complete 90 ''2025-01-01T10:01:30'' example_context))) = 3
   \<and> complete 120 ''2025-01-01T10:02:00'' (complete 90 ''2025-01-01T10:01:30'' example_context)
       \<noteq> complete 90 ''2025-01-01T10:01:30'' example_context"
  by (simp add: complete_def add_to_history_def example_context_def)

text \<open>
  Claim C8, amended: after \<^verbatim>\<open>complete()\<close>, \<^verbatim>\<open>completed_at\<close> is set and \<^verbatim>\<open>is_active()\<close> is
  false.  Completing the journey of that context again through
  \<^verbatim>\<open>JourneyEngine.complete_journey\<close> is a no-op: the context (so its \<^verbatim>\<open>completed_at\<close>,
  activity and state history) and the stored rows are returned as they were, and nothing
  is raised; the same holds for the context that a first \<^verbatim>\<open>complete_journey\<close> on an active
  context leaves, whether or not its write to the store succeeded.  A second direct
  \<^verbatim>\<open>complete()\<close> leaves \<^verbatim>\<open>is_active()\<close> false and \<^verbatim>\<open>completed_at\<close> set, but sets it to the
  new clock reading and appends one more \<^verbatim>\<open>journey_completed\<close> event to the history.
\<close>

theorem complete_then_complete_again:
  "completed_at (complete now now_iso c) = Some now
   \<and> \<not> is_active (complete now now_iso c)
   \<and> complete_journey now2 now_iso2 now3 db_ok2 tbl2 (complete now now_iso c)
       = (None, complete now now_iso c, tbl2)
   \<and> (is_active c \<longrightarrow>
        completed_at (fst (snd (complete_journey now now_iso now' db_ok tbl c))) = Some now
        \<and> \<not> is_active (fst (snd (complete_journey now now_iso now' db_ok tbl c)))
        \<and> complete_journey now2 now_iso2 now3 db_ok2
             (snd (snd (complete_journey now now_iso now' db_ok tbl c)))
             (fst (snd (complete_journey now now_iso now' db_ok tbl c)))
           = (None, fst (snd (complete_journey now now_iso now' db_ok tbl c)),
              snd (snd (complete_journey now now_iso now' db_ok tbl c))))
   \<and> \<not> is_active (complete now2 now_iso2 (complete now now_iso c))
   \<and> completed_at (complete now2 now_iso2 (complete now now_iso c)) = Some now2
   \<and> state_history (complete now2 now_iso2 (complete now now_iso c))
       = state_history (complete now now_iso c)
         @ [[(''event'', JStr ''journey_completed''), (''final_state'', current_state c),
             (''timestamp'', JStr now_iso2)]]"
  by (simp add: complete_journey_def complete_def add_to_history_def is_active_def
      update_context_def Let_def)

theorem complete_then_complete_again_witness:
  "is_active example_context
   \<and> completed_at (fst (snd (complete_journey 90 ''2025-01-01T10:01:30'' 91 True
        [5 \<mapsto> example_context] example_context))) = Some 90
   \<and> \<not> is_active (fst (snd (complete_journey 90 ''2025-01-01T10:01:30'' 91 True
        [5 \<mapsto> example_context] example_context)))
   \<and> complete_journey 120 ''2025-01-01T10:02:00'' 121 True
        (snd (snd (complete_journey 90 ''2025-01-01T10:01:30'' 91 True
           [5 \<mapsto> example_context] example_context)))
        (fst (snd (complete_journey 90 ''2025-01-01T10:01:30'' 91 True
           [5 \<mapsto> example_context] example_context)))
      = (None,
         fst (snd (complete_journey 90 ''2025-01-01T10:01:30'' 91 True
           [5 \<mapsto> example_context] example_context)),
         snd (snd (complete_journey 90 ''2025-01-01T10:01:30'' 91 True
           [5 \<mapsto> example_context] example_context)))
   \<and> completed_at (complete 120 ''2025-01-01T10:02:00''
         (complete 90 ''2025-01-01T10:01:30'' example_context)) = Some 120"
proof -
  have a: "is_active example_context"
    by (simp add: is_active_def example_context_def)
  from a complete_then_complete_again [of 90 "''2025-01-01T10:01:30''" example_context
      120 "''2025-01-01T10:02:00''" 121 True _ 91 True "[5 \<mapsto> example_context]"]
  show ?thesis by blast
qed

section \<open>The verdicts of the response validator\<close>

text \<open>
  Claim C7: with an empty guideline list \<^verbatim>\<open>validate_response\<close> returns a valid verdict
  with no violations and confidence 1.0; when the validation model call fails (the call
  is made only for a non-empty list whose prompt could be built) it returns a valid
  verdict with no violations and confidence 0.0.  In both cases the result is a returned
  value, not an exception, and the audit table is as before.
\<close>

theorem validate_response_defaults:
  "validate_response response [] sid journey_id ctx llm fix_llm elapsed_ms new_id db_ok audit
     = (Inr \<lparr>is_valid = JBool True, violations = JArr [], confidence_v = JFloat 1,
             suggested_fixes = JArr [], fixed_response = None\<rparr>, audit)
   \<and> (guidelines \<noteq> [] \<and> serializable ctx \<longrightarrow>
        validate_response response guidelines sid journey_id ctx LLM_failure fix_llm
            elapsed_ms new_id db_ok audit
          = (Inr \<lparr>is_valid = JBool True, violations = JArr [], confidence_v = JFloat 0,
                  suggested_fixes = JArr [], fixed_response = None\<rparr>, audit))"
  by (simp add: validate_response_def ValidationResult_init_def)

theorem validate_response_defaults_witness:
  "[example_guideline GLOBAL None None] \<noteq> []
   \<and> serializable (Some [(''identity_verified'', Json (JBool True))])
   \<and> validate_response ''Your claim is approved.'' [example_guideline GLOBAL None None]
        ''call-1'' (Some 1) (Some [(''identity_verified'', Json (JBool True))]) LLM_failure
        None 12 77 True []
      = (Inr \<lparr>is_valid = JBool True, violations = JArr [], confidence_v = JFloat 0,
              suggested_fixes = JArr [], fixed_response = None\<rparr>, [])"
proof -
  have g: "[example_guideline GLOBAL None None] \<noteq> []" by simp
  have s: "serializable (Some [(''identity_verified'', Json (JBool True))])"
    by (simp add: serializable_def)
  from g s validate_response_defaults
      [where guidelines = "[example_guideline GLOBAL None None]"
         and ctx = "Some [(''identity_verified'', Json (JBool True))]"]
  show ?thesis by blast
qed

section \<open>The audit record of a validation\<close>

text \<open>
  Claim C2, as stated, fails: with an empty guideline list, and when the validation model
  call fails, \<^verbatim>\<open>validate_response\<close> returns before \<^verbatim>\<open>_log_validation\<close> is reached and the
  audit table stays empty, although the database accepts writes.
\<close>

theorem validate_response_without_audit:
  "snd (validate_response ''Your claim is approved.'' [] ''call-1'' (Some 1) None valid_reply
          None 12 77 True []) = []
   \<and> snd (validate_response ''Your claim is approved.'' [example_guideline GLOBAL None None]
          ''call-1'' (Some 1) None LLM_failure None 12 77 True []) = []"
  by (simp add: validate_response_def serializable_def)

text \<open>
  Claim C2, amended: an invocation with a non-empty guideline list, whose validation model
  call returns a JSON object with a sized \<^verbatim>\<open>violations\<close> value, appends exactly one audit
  record, which holds the measured latency and the verdict, whatever the verdict is,
  provided the insert succeeds.  With an empty guideline list or a failed validation
  call the audit table is unchanged.
\<close>

theorem validate_response_audit:
  "(guidelines \<noteq> [] \<and> serializable ctx
      \<and> py_len (get_default result ''violations'' (JArr [])) = Inr n \<and> db_ok \<longrightarrow>
      (\<exists>row. snd (validate_response response guidelines sid journey_id ctx
                 (LLM_reply (JObj result)) fix_llm elapsed_ms new_id db_ok audit)
               = audit @ [row]
             \<and> latency_ms_a row = elapsed_ms
             \<and> is_valid_a row = get_default result ''is_valid'' (JBool True)))
   \<and> (guidelines = [] \<or> llm = LLM_failure \<longrightarrow>
        snd (validate_response response guidelines sid journey_id ctx llm fix_llm
               elapsed_ms new_id db_ok audit)
          = audit)"
  by (auto simp: validate_response_def ValidationResult_init_def log_validation_def Let_def)

theorem validate_response_audit_witness:
  "[example_guideline GLOBAL None None] \<noteq> []
   \<and> serializable None
   \<and> py_len (get_default violation_result ''violations'' (JArr [])) = Inr 1
   \<and> (\<exists>row. snd (validate_response ''Your claim for $8,500 is approved.''
                 [example_guideline GLOBAL None None] ''call-1'' (Some 1) None
                 (LLM_reply (JObj violation_result)) (Some '' Your claim is approved. '')
                 12 77 True [])
               = [] @ [row]
             \<and> latency_ms_a row = 12
             \<and> is_valid_a row = get_default violation_result ''is_valid'' (JBool True))"
proof -
  have g: "[example_guideline GLOBAL None None] \<noteq> []" by simp
  have s: "serializable None" by (simp add: serializable_def)
  have l: "py_len (get_default violation_result ''violations'' (JArr [])) = Inr 1"
    by (simp add: get_default_def violation_result_def)
  from g s l validate_response_audit
      [where guidelines = "[example_guideline GLOBAL None None]" and ctx = None
         and result = violation_result and n = 1 and db_ok = True]
  show ?thesis by blast
qed

section \<open>The order and the confidence of the matches\<close>

text \<open>
  \<^verbatim>\<open>list.sort(reverse=True)\<close> gives a list in non-increasing key order, with the same
  elements, in which elements of equal key keep the order they had.
\<close>

lemma sort_reverse_sorted: "sorted_wrt (\<lambda>a b. key b \<le> key a) (sort_reverse key xs)"
proof -
  have "sorted (map key (sort_key key (rev xs)))" by simp
  then have "sorted_wrt (\<lambda>a b. key a \<le> key b) (sort_key key (rev xs))"
    by (simp add: sorted_map)
  then show ?thesis
    by (simp add: sort_reverse_def sorted_wrt_rev)
qed

lemma set_sort_reverse: "set (sort_reverse key xs) = set xs"
  by (simp add: sort_reverse_def)

lemma sort_reverse_stable:
  "filter (\<lambda>x. key x = k) (sort_reverse key xs) = filter (\<lambda>x. key x = k) xs"
proof -
  have "filter (\<lambda>x. key x = k) (sort_reverse key xs)
      = rev (filter (\<lambda>x. key x = k) (sort_key key (rev xs)))"
    by (simp add: sort_reverse_def rev_filter)
  also have "\<dots> = rev (filter (\<lambda>x. key x = k) (rev xs))"
    by (simp only: sort_key_stable)
  also have "\<dots> = filter (\<lambda>x. key x = k) xs"
    by (simp add: rev_filter)
  finally show ?thesis .
qed

text \<open>What the loop body appends, and what the loop returns.\<close>

lemma find_Some_in_set: "find P xs = Some x \<Longrightarrow> x \<in> set xs \<and> P x"
  by (induction xs) (auto split: if_splits)

lemma evaluate_verdict_Some:
  assumes "evaluate_verdict UUID candidates v = Inr (Some m)"
  shows "0.6 \<le> confidence m \<and> confidence m \<le> 1 \<and> guideline m \<in> set candidates"
proof -
  from assms obtain gid g where
    g: "find (\<lambda>g. id_g g = gid) candidates = Some g" and
    m: "guideline m = g \<and> 0.6 \<le> confidence m \<and> confidence m \<le> 1"
    by (auto simp: evaluate_verdict_def GuidelineMatch_post_init_def
        split: json.splits if_splits option.splits)
  with find_Some_in_set [OF g] show ?thesis by simp
qed


lemma collect_matches_invariant:
  assumes "collect_matches UUID candidates items acc = Inr ms"
      and "\<forall>m \<in> set acc. 0.6 \<le> confidence m \<and> confidence m \<le> 1 \<and> guideline m \<in> set candidates"
  shows "\<forall>m \<in> set ms. 0.6 \<le> confidence m \<and> confidence m \<le> 1 \<and> guideline m \<in> set candidates"
  using assms
proof (induction items arbitrary: acc)
  case Nil
  then show ?case by simp
next
  case (Cons v rest)
  show ?case
  proof (cases "evaluate_verdict UUID candidates v")
    case (Inl e)
    with Cons.prems(1) show ?thesis by simp
  next
    case (Inr r)
    show ?thesis
    proof (cases r)
      case None
      with Inr Cons.prems(1)
      have "collect_matches UUID candidates rest acc = Inr ms" by simp
      from Cons.IH [OF this Cons.prems(2)] show ?thesis .
    next
      case (Some m)
      from Inr Some have "evaluate_verdict UUID candidates v = Inr (Some m)" by simp
      from evaluate_verdict_Some [OF this] Cons.prems(2)
      have inv: "\<forall>x \<in> set (acc @ [m]).
          0.6 \<le> confidence x \<and> confidence x \<le> 1 \<and> guideline x \<in> set candidates"
        by simp
      from Cons.prems(1) Inr Some
      have "collect_matches UUID candidates rest (acc @ [m]) = Inr ms" by simp
      from Cons.IH [OF this inv] show ?thesis .
    qed
  qed
qed

lemma batch_evaluate_guidelines_bounds:
  "\<forall>m \<in> set (batch_evaluate_guidelines UUID candidates llm).
     0.6 \<le> confidence m \<and> confidence m \<le> 1 \<and> guideline m \<in> set candidates"
proof (cases llm)
  case LLM_failure
  then show ?thesis by (simp add: batch_evaluate_guidelines_def)
next
  case (LLM_reply v)
  show ?thesis
  proof (cases v)
    case (JObj result)
    show ?thesis
    proof (cases "py_iter (get_default result ''matches'' (JArr []))")
      case (Inl e)
      with LLM_reply JObj show ?thesis by (simp add: batch_evaluate_guidelines_def)
    next
      case (Inr items)
      show ?thesis
      proof (cases "collect_matches UUID candidates items []")
        case (Inl e)
        with LLM_reply JObj Inr show ?thesis by (simp add: batch_evaluate_guidelines_def)
      next
        case inr: (Inr ms)
        from collect_matches_invariant [OF inr]
        have "\<forall>m \<in> set ms. 0.6 \<le> confidence m \<and> confidence m \<le> 1 \<and> guideline m \<in> set candidates"
          by simp
        with LLM_reply JObj Inr inr show ?thesis by (simp add: batch_evaluate_guidelines_def)
      qed
    qed
  qed (simp_all add: LLM_reply batch_evaluate_guidelines_def)
qed

text \<open>The example: both guidelines match the utterance and are confirmed, beta first.\<close>

lemma example_keywords:
  "extract_keywords ''Can I get a REFUND?'' 3 = [''get'', ''refund'']"
  by (simp add: extract_keywords_def lower_def lower_char_def is_word_char_def stopwords_def)

lemma example_stage1:
  "stage1_candidates example_store ''Can I get a REFUND?'' None None
     = Inr [named_guideline 11 ''alpha'', named_guideline 12 ''beta'']"
  by (simp add: stage1_candidates_def example_keywords example_store_def
      get_guidelines_by_scope_def row_in_scope_def named_guideline_def Guideline_post_init_def
      lower_def lower_char_def get_guideline_def Let_def)

lemma example_batch:
  "batch_evaluate_guidelines example_UUID
     [named_guideline 11 ''alpha'', named_guideline 12 ''beta''] (batch_reply [v_beta, v_alpha])
   = [m_beta, m_alpha]"
  by (simp add: batch_evaluate_guidelines_def batch_reply_def get_default_def verdict_def
      evaluate_verdict_def example_UUID_def named_guideline_def GuidelineMatch_post_init_def
      m_alpha_def m_beta_def v_alpha_def v_beta_def)

lemma example_scores:
  "get_priority_score (named_guideline i n) None None = 1010"
  by (simp add: get_priority_score_def matches_scope_def named_guideline_def scope_priority_def)

lemma example_match:
  "match_guidelines example_UUID example_store ''Can I get a REFUND?'' None None
     (batch_reply [v_beta, v_alpha]) = Inr [m_beta, m_alpha]"
  by (simp add: match_guidelines_def example_stage1 example_batch sort_reverse_def
      m_alpha_def m_beta_def example_scores)

lemma example_match_reversed:
  "match_guidelines example_UUID example_store ''Can I get a REFUND?'' None None
     (batch_reply [v_alpha, v_beta]) = Inr [m_alpha, m_beta]"
  by (simp add: match_guidelines_def example_stage1 sort_reverse_def example_scores
      batch_evaluate_guidelines_def batch_reply_def get_default_def verdict_def
      evaluate_verdict_def example_UUID_def GuidelineMatch_post_init_def
      m_alpha_def m_beta_def v_alpha_def v_beta_def)
    (simp add: named_guideline_def)

text \<open>
  Claim C3, as stated, fails in its tie-break: two matches of equal score come back in the
  order in which the model's reply listed them.  When the reply lists beta before alpha,
  so does the result, against the order of the names; when the reply lists alpha first,
  so does the result.
\<close>

theorem ties_keep_reply_order:
  "match_guidelines example_UUID example_store ''Can I get a REFUND?'' None None
     (batch_reply [v_beta, v_alpha]) = Inr [m_beta, m_alpha]
   \<and> score None None m_beta = score None None m_alpha
   \<and> name_g (guideline m_alpha) < name_g (guideline m_beta)
   \<and> \<not> ties_by_name None None [m_beta, m_alpha]
   \<and> match_guidelines example_UUID example_store ''Can I get a REFUND?'' None None
     (batch_reply [v_alpha, v_beta]) = Inr [m_alpha, m_beta]"
  by (simp add: example_match example_match_reversed score_def ties_by_name_def m_alpha_def
      m_beta_def example_scores)
    (simp add: named_guideline_def)

text \<open>
  Claim C3, amended: for every utterance and scope, the list \<^verbatim>\<open>match_guidelines\<close> returns
  is sorted in non-increasing order of the priority score, every match has confidence at
  least 0.6, and matches of equal score stand in the order in which the batch evaluation
  produced them, that is the order of the verdicts in the model's reply.
\<close>

theorem match_guidelines_sorted:
  "match_guidelines UUID store user_message journey_id state_name llm = Inr ms \<longrightarrow>
     sorted_wrt (\<lambda>a b. score journey_id state_name b \<le> score journey_id state_name a) ms
     \<and> (\<forall>m \<in> set ms. 0.6 \<le> confidence m)
     \<and> (\<forall>candidates k.
          stage1_candidates store user_message journey_id state_name = Inr candidates
            \<and> candidates \<noteq> [] \<longrightarrow>
          filter (\<lambda>m. score journey_id state_name m = k) ms
            = filter (\<lambda>m. score journey_id state_name m = k)
                (batch_evaluate_guidelines UUID candidates llm))"
proof
  assume a: "match_guidelines UUID store user_message journey_id state_name llm = Inr ms"
  show "sorted_wrt (\<lambda>a b. score journey_id state_name b \<le> score journey_id state_name a) ms
     \<and> (\<forall>m \<in> set ms. 0.6 \<le> confidence m)
     \<and> (\<forall>candidates k.
          stage1_candidates store user_message journey_id state_name = Inr candidates
            \<and> candidates \<noteq> [] \<longrightarrow>
          filter (\<lambda>m. score journey_id state_name m = k) ms
            = filter (\<lambda>m. score journey_id state_name m = k)
                (batch_evaluate_guidelines UUID candidates llm))"
  proof (cases "stage1_candidates store user_message journey_id state_name")
    case (Inl e)
    with a show ?thesis by (simp add: match_guidelines_def)
  next
    case (Inr candidates)
    show ?thesis
    proof (cases "candidates = []")
      case True
      with a Inr have "ms = []" by (simp add: match_guidelines_def)
      with Inr True show ?thesis by simp
    next
      case False
      with a Inr
      have ms: "ms = sort_reverse (score journey_id state_name)
                     (batch_evaluate_guidelines UUID candidates llm)"
        by (auto simp: match_guidelines_def score_def [abs_def])
      have 1: "sorted_wrt
          (\<lambda>a b. score journey_id state_name b \<le> score journey_id state_name a) ms"
        unfolding ms by (rule sort_reverse_sorted)
      have 2: "\<forall>m \<in> set ms. 0.6 \<le> confidence m"
        unfolding ms using batch_evaluate_guidelines_bounds [of UUID candidates llm]
        by (simp add: set_sort_reverse)
      have 3: "filter (\<lambda>m. score journey_id state_name m = k) ms
            = filter (\<lambda>m. score journey_id state_name m = k)
                (batch_evaluate_guidelines UUID candidates llm)" for k
        unfolding ms by (rule sort_reverse_stable)
      from 1 2 3 Inr show ?thesis by simp
    qed
  qed
qed

theorem match_guidelines_sorted_witness:
  "match_guidelines example_UUID example_store ''Can I get a REFUND?'' None None
     (batch_reply [v_beta, v_alpha]) = Inr [m_beta, m_alpha]
   \<and> sorted_wrt (\<lambda>a b. score None None b \<le> score None None a) [m_beta, m_alpha]
   \<and> 0.6 \<le> confidence m_beta \<and> 0.6 \<le> confidence m_alpha
   \<and> stage1_candidates example_store ''Can I get a REFUND?'' None None
       = Inr [named_guideline 11 ''alpha'', named_guideline 12 ''beta'']
   \<and> filter (\<lambda>m. score None None m = 1010) [m_beta, m_alpha]
       = filter (\<lambda>m. score None None m = 1010)
           (batch_evaluate_guidelines example_UUID
              [named_guideline 11 ''alpha'', named_guideline 12 ''beta'']
              (batch_reply [v_beta, v_alpha]))"
proof -
  note m = example_match
  note s = example_stage1
  have ne: "[named_guideline 11 ''alpha'', named_guideline 12 ''beta''] \<noteq> []" by simp
  from match_guidelines_sorted [of example_UUID example_store "''Can I get a REFUND?''"
      None None "batch_reply [v_beta, v_alpha]" "[m_beta, m_alpha]"] m
  have *: "sorted_wrt (\<lambda>a b. score None None b \<le> score None None a) [m_beta, m_alpha]
     \<and> (\<forall>m \<in> set [m_beta, m_alpha]. 0.6 \<le> confidence m)
     \<and> (\<forall>candidates k.
          stage1_candidates example_store ''Can I get a REFUND?'' None None = Inr candidates
            \<and> candidates \<noteq> [] \<longrightarrow>
          filter (\<lambda>m. score None None m = k) [m_beta, m_alpha]
            = filter (\<lambda>m. score None None m = k)
                (batch_evaluate_guidelines example_UUID candidates
                   (batch_reply [v_beta, v_alpha])))"
    by blast
  from * s ne have f: "filter (\<lambda>m. score None None m = 1010) [m_beta, m_alpha]
       = filter (\<lambda>m. score None None m = 1010)
           (batch_evaluate_guidelines example_UUID
              [named_guideline 11 ''alpha'', named_guideline 12 ''beta'']
              (batch_reply [v_beta, v_alpha]))"
    by blast
  from * have c: "0.6 \<le> confidence m_beta \<and> 0.6 \<le> confidence m_alpha"
    by simp
  from m s * f c show ?thesis by blast
qed

section \<open>A verdict with a confidence out of range\<close>







section \<open>The empty utterance\<close>












section \<open>The cache key of a tool call\<close>

text \<open>
  Sorting by key gives one list for all orderings of the same items: a list whose keys are
  sorted and distinct is determined by its set of items.
\<close>

lemma distinct_map_sort_key:
  "distinct (map f (sort_key f xs)) = distinct (map f xs)"
  by (induction xs) (simp_all add: distinct_insort_key)

lemma key_sorted_unique:
  fixes xs ys :: "(string \<times> 'v) list"
  assumes "sorted (map fst xs)" "distinct (map fst xs)"
      and "sorted (map fst ys)" "distinct (map fst ys)"
      and "set xs = set ys"
  shows "xs = ys"
  using assms
proof (induction xs arbitrary: ys)
  case Nil
  then show ?case by simp
next
  case (Cons x xs)
  from Cons.prems(5) obtain y ys' where ys: "ys = y # ys'"
    by (cases ys) auto
  have "x \<in> set (y # ys')" using Cons.prems(5) ys by auto
  moreover have "y \<in> set (x # xs)" using Cons.prems(5) ys by auto
  ultimately have le1: "fst y \<le> fst x" and le2: "fst x \<le> fst y"
    using Cons.prems(1,3) ys by auto
  then have k: "fst x = fst y" by simp
  have xy: "x = y"
  proof (rule ccontr)
    assume "x \<noteq> y"
    with \<open>x \<in> set (y # ys')\<close> have "x \<in> set ys'" by simp
    then have "fst x \<in> fst ` set ys'" by (rule imageI)
    with k Cons.prems(4) ys show False by simp
  qed
  have "x \<notin> set xs" using Cons.prems(2) by (auto simp: image_iff)
  moreover have "y \<notin> set ys'" using Cons.prems(4) ys by (auto simp: image_iff)
  ultimately have "set xs = set ys'" using Cons.prems(5) ys xy by auto
  with Cons.IH [of ys'] Cons.prems ys xy show ?case by simp
qed

lemma sort_key_fst_order_insensitive:
  fixes xs ys :: "(string \<times> 'v) list"
  assumes "distinct (map fst xs)" "distinct (map fst ys)" "map_of xs = map_of ys"
  shows "sort_key fst xs = sort_key fst ys"
proof (rule key_sorted_unique)
  show "sorted (map fst (sort_key fst xs))" by simp
  show "sorted (map fst (sort_key fst ys))" by simp
  show "distinct (map fst (sort_key fst xs))"
    using assms(1) by (simp add: distinct_map_sort_key)
  show "distinct (map fst (sort_key fst ys))"
    using assms(2) by (simp add: distinct_map_sort_key)
  from assms have "set xs = set ys" by (simp add: map_of_inject_set)
  then show "set (sort_key fst xs) = set (sort_key fst ys)" by simp
qed

lemma map_of_encoded:
  "map_of (map (\<lambda>(k, v). (k, f v)) xs) = map_option f \<circ> map_of xs"
  by (induction xs) (auto simp: fun_eq_iff)

lemma same_value_dumps: "same_value a b \<Longrightarrow> dumps L a = dumps L b"
proof (induction rule: same_value.induct)
  case (same v)
  show ?case by simp
next
  case (arr xs ys)
  then have "map (dumps L) xs = map (dumps L) ys"
    by (induction rule: list_all2_induct) simp_all
  then show ?case by simp
next
  case (obj xs ys)
  let ?e = "\<lambda>(k, v). (k, dumps L v)"
  have fst_e: "map fst (map ?e zs) = map fst zs" for zs :: pydict
    by (induction zs) auto
  have "map_of (map ?e xs) k = map_of (map ?e ys) k" for k
  proof (cases "map_of xs k")
    case None
    then have "k \<notin> fst ` set xs" by (simp add: map_of_eq_None_iff)
    with obj.hyps(3) have "map_of ys k = None" by (simp add: map_of_eq_None_iff)
    with None show ?thesis by (simp add: map_of_encoded)
  next
    case (Some v)
    then have "k \<in> fst ` set xs" by (metis map_of_eq_None_iff option.distinct(1))
    with obj.hyps(3) obtain w where w: "map_of ys k = Some w"
      by (metis map_of_eq_None_iff not_Some_eq)
    with Some obj.IH have "dumps L v = dumps L w" by blast
    with Some w show ?thesis by (simp add: map_of_encoded)
  qed
  then have "map_of (map ?e xs) = map_of (map ?e ys)" by (rule ext)
  with obj.hyps(1,2) have "sort_key fst (map ?e xs) = sort_key fst (map ?e ys)"
    by (intro sort_key_fst_order_insensitive) (simp_all only: fst_e)
  then show ?case by simp
qed

lemma compute_cache_key_same_value:
  "same_value (JObj xs) (JObj ys)
     \<Longrightarrow> compute_cache_key L tool_name xs = compute_cache_key L tool_name ys"
  using same_value_dumps [of "JObj xs" "JObj ys" L]
  by (simp add: compute_cache_key_def del: dumps.simps)

lemma same_value_permuted:
  assumes "distinct (map fst xs)" "distinct (map fst ys)" "map_of xs = map_of ys"
  shows "same_value (JObj xs) (JObj ys)"
proof (rule same_value.obj)
  from assms have "set xs = set ys" by (simp add: map_of_inject_set)
  then show "fst ` set xs = fst ` set ys" by simp
  show "\<forall>k v w. map_of xs k = Some v \<longrightarrow> map_of ys k = Some w \<longrightarrow> same_value v w"
    using assms(3) by (auto intro: same_value.same)
qed (use assms in simp_all)

text \<open>
  Claim C9: for every tool name, two argument dicts that are equal as key-value maps get
  the same cache key, whatever the insertion order of their keys; this holds for dicts
  with the same keys bound to identical values, and also when the values are themselves
  dicts that differ only in the order of their keys.
\<close>

theorem cache_key_order_insensitive:
  "(distinct (map fst xs) \<and> distinct (map fst ys) \<and> map_of xs = map_of ys
      \<longrightarrow> compute_cache_key L tool_name xs = compute_cache_key L tool_name ys)
   \<and> (same_value (JObj xs) (JObj ys)
      \<longrightarrow> compute_cache_key L tool_name xs = compute_cache_key L tool_name ys)"
  using compute_cache_key_same_value [of xs ys L tool_name] same_value_permuted [of xs ys]
  by blast

lemma nested_example:
  "same_value
     (JObj [(''claim_id'', JStr ''CLM-1''), (''filter'', JObj [(''a'', JInt 1), (''b'', JInt 2)])])
     (JObj [(''filter'', JObj [(''b'', JInt 2), (''a'', JInt 1)]), (''claim_id'', JStr ''CLM-1'')])"
proof -
  have inner: "same_value (JObj [(''a'', JInt 1), (''b'', JInt 2)])
                          (JObj [(''b'', JInt 2), (''a'', JInt 1)])"
    by (rule same_value_permuted) (auto simp: fun_eq_iff)
  show ?thesis
    by (rule same_value.obj) (auto intro: same_value.same inner split: if_splits)
qed

theorem cache_key_order_insensitive_witness:
  "distinct (map fst [(''a'', JInt 1), (''b'', JInt 2)])
   \<and> distinct (map fst [(''b'', JInt 2), (''a'', JInt 1)])
   \<and> map_of [(''a'', JInt 1), (''b'', JInt 2)] = map_of [(''b'', JInt 2), (''a'', JInt 1)]
   \<and> compute_cache_key example_lib ''get_claim_status'' [(''a'', JInt 1), (''b'', JInt 2)]
       = compute_cache_key example_lib ''get_claim_status'' [(''b'', JInt 2), (''a'', JInt 1)]
   \<and> same_value
        (JObj [(''claim_id'', JStr ''CLM-1''),
               (''filter'', JObj [(''a'', JInt 1), (''b'', JInt 2)])])
        (JObj [(''filter'', JObj [(''b'', JInt 2), (''a'', JInt 1)]),
               (''claim_id'', JStr ''CLM-1'')])
   \<and> compute_cache_key example_lib ''get_claim_status''
        [(''claim_id'', JStr ''CLM-1''), (''filter'', JObj [(''a'', JInt 1), (''b'', JInt 2)])]
       = compute_cache_key example_lib ''get_claim_status''
        [(''filter'', JObj [(''b'', JInt 2), (''a'', JInt 1)]), (''claim_id'', JStr ''CLM-1'')]"
proof -
  have d: "distinct (map fst [(''a'', JInt 1), (''b'', JInt 2)])
   \<and> distinct (map fst [(''b'', JInt 2), (''a'', JInt 1)])"
    by simp
  have m: "map_of [(''a'', JInt 1), (''b'', JInt 2)] = map_of [(''b'', JInt 2), (''a'', JInt 1)]"
    by (auto simp: fun_eq_iff)
  from d m nested_example
    cache_key_order_insensitive
      [of "[(''a'', JInt 1), (''b'', JInt 2)]" "[(''b'', JInt 2), (''a'', JInt 1)]"
          example_lib "''get_claim_status''"]
    cache_key_order_insensitive
      [of "[(''claim_id'', JStr ''CLM-1''), (''filter'', JObj [(''a'', JInt 1), (''b'', JInt 2)])]"
          "[(''filter'', JObj [(''b'', JInt 2), (''a'', JInt 1)]), (''claim_id'', JStr ''CLM-1'')]"
          example_lib "''get_claim_status''"]
  show ?thesis by blast
qed

section \<open>The rate limit of a tool\<close>

text \<open>
  The three outcomes of \<^verbatim>\<open>_check_rate_limit\<close> on a functioning service: the first call
  of a window stores 1 with the TTL, a later call below the limit increments, a call at
  the limit is rejected and leaves the counter as it is.
\<close>

lemma check_rate_limit_first:
  assumes "rate_limit td = Some (policy m w f)" "truthy (py_get arguments f)"
      and "redis_get now True kv (compute_rate_limit_key L (name_t td) (py_get arguments f)) = None"
      and "0 < m" "0 < w"
  shows "check_rate_limit L td arguments now True kv
           = (None, kv(compute_rate_limit_key L (name_t td) (py_get arguments f)
                        \<mapsto> (1, Some (now + nat w))))"
  using assms by (simp add: check_rate_limit_def policy_def redis_set_def Let_def)

lemma check_rate_limit_next:
  assumes "rate_limit td = Some (policy m w f)" "truthy (py_get arguments f)"
      and "kv (compute_rate_limit_key L (name_t td) (py_get arguments f)) = Some (k, Some e)"
      and "now < e" "0 < k" "k < m"
  shows "check_rate_limit L td arguments now True kv
           = (None, kv(compute_rate_limit_key L (name_t td) (py_get arguments f)
                        \<mapsto> (k + 1, Some e)))"
  using assms
  by (simp add: check_rate_limit_def policy_def redis_get_def redis_incr_def Let_def)

lemma check_rate_limit_exceeded:
  assumes "rate_limit td = Some (policy m w f)" "truthy (py_get arguments f)"
      and "kv (compute_rate_limit_key L (name_t td) (py_get arguments f)) = Some (k, Some e)"
      and "now < e" "m \<le> k"
  shows "check_rate_limit L td arguments now True kv = (Some RateLimitExceededError, kv)"
  using assms
  by (simp add: check_rate_limit_def policy_def redis_get_def Let_def)

lemma check_rate_limit_exceeded_zero:
  assumes "rate_limit td = Some (policy m w f)" "truthy (py_get arguments f)"
      and "redis_get now True kv (compute_rate_limit_key L (name_t td) (py_get arguments f)) = None"
      and "m \<le> 0"
  shows "check_rate_limit L td arguments now True kv = (Some RateLimitExceededError, kv)"
  using assms
  by (simp add: check_rate_limit_def policy_def Let_def)

lemma execute_rejected:
  assumes "registry tool_name = Some td"
      and "check_rate_limit L td arguments now kv_up (counters st) = (Some e, counters st)"
  shows "execute L registry tool_name arguments now kv_up st = (Inl e, st)"
  using assms by (simp add: execute_def)

lemma execute_admitted:
  assumes "registry tool_name = Some td"
      and "check_rate_limit L td arguments now kv_up (counters st) = (None, kv')"
  shows "fst (execute L registry tool_name arguments now kv_up st) \<noteq> Inl RateLimitExceededError
       \<and> counters (snd (execute L registry tool_name arguments now kv_up st)) = kv'
       \<and> (\<not> cache_enabled td \<longrightarrow>
            invocations (snd (execute L registry tool_name arguments now kv_up st))
              = invocations st @ [(tool_name, arguments)])"
  using assms
  by (auto simp: execute_def Let_def split: option.splits tool_behaviour.splits)


lemma run_calls_append:
  "run_calls L registry tool_name (xs @ ys) st =
     (fst (run_calls L registry tool_name xs st)
        @ fst (run_calls L registry tool_name ys (snd (run_calls L registry tool_name xs st))),
      snd (run_calls L registry tool_name ys (snd (run_calls L registry tool_name xs st))))"
  by (induction xs arbitrary: st) (auto split: prod.splits)

lemma run_calls_admitted:
  assumes "registry tool_name = Some td"
      and "rate_limit td = Some (policy m w f)"
      and "truthy ident"
      and "counters st (compute_rate_limit_key L (name_t td) ident) = Some (int k, Some e)"
      and "0 < k"
      and "\<forall>c \<in> set cs. py_get (fst c) f = ident \<and> snd c < e"
      and "int k + int (length cs) \<le> m"
  shows "counters (snd (run_calls L registry tool_name cs st))
             (compute_rate_limit_key L (name_t td) ident)
           = Some (int (k + length cs), Some e)
       \<and> (\<forall>r \<in> set (fst (run_calls L registry tool_name cs st)).
             r \<noteq> Inl RateLimitExceededError)
       \<and> (\<not> cache_enabled td \<longrightarrow>
            invocations (snd (run_calls L registry tool_name cs st))
              = invocations st @ map (\<lambda>c. (tool_name, fst c)) cs)"
  using assms(4-7)
proof (induction cs arbitrary: st k)
  case Nil
  then show ?case by simp
next
  case (Cons c cs)
  obtain arguments now where c: "c = (arguments, now)" by (cases c)
  let ?key = "compute_rate_limit_key L (name_t td) ident"
  let ?st' = "snd (execute L registry tool_name arguments now True st)"
  from Cons.prems(3) c have id: "py_get arguments f = ident" and now: "now < e" by auto
  from Cons.prems(4) have km: "int k < m" by simp
  have chk: "check_rate_limit L td arguments now True (counters st)
           = (None, (counters st)(?key \<mapsto> (int k + 1, Some e)))"
    using check_rate_limit_next [of td m w f arguments "counters st" L "int k" e now]
      assms(2,3) Cons.prems(1,2) id now km by simp
  from execute_admitted [where registry = registry and tool_name = tool_name, OF assms(1) chk]
  have r: "fst (execute L registry tool_name arguments now True st)
             \<noteq> Inl RateLimitExceededError"
    and cnt: "counters ?st' = (counters st)(?key \<mapsto> (int k + 1, Some e))"
    and inv: "\<not> cache_enabled td \<longrightarrow> invocations ?st' = invocations st @ [(tool_name, arguments)]"
    by simp_all
  from cnt have cnt': "counters ?st' ?key = Some (int (Suc k), Some e)" by simp
  have rest: "\<forall>c \<in> set cs. py_get (fst c) f = ident \<and> snd c < e"
    using Cons.prems(3) by simp
  have bound: "int (Suc k) + int (length cs) \<le> m" using Cons.prems(4) by simp
  from Cons.IH [OF cnt' _ rest bound]
  have ih: "counters (snd (run_calls L registry tool_name cs ?st')) ?key
           = Some (int (Suc k + length cs), Some e)
       \<and> (\<forall>r \<in> set (fst (run_calls L registry tool_name cs ?st')).
             r \<noteq> Inl RateLimitExceededError)
       \<and> (\<not> cache_enabled td \<longrightarrow>
            invocations (snd (run_calls L registry tool_name cs ?st'))
              = invocations ?st' @ map (\<lambda>c. (tool_name, fst c)) cs)"
    by simp
  have run: "run_calls L registry tool_name (c # cs) st
      = (fst (execute L registry tool_name arguments now True st)
           # fst (run_calls L registry tool_name cs ?st'),
         snd (run_calls L registry tool_name cs ?st'))"
    by (simp add: c split: prod.splits)
  from ih r inv show ?case
    unfolding run by (simp add: c)
qed


lemma run_calls_single:
  "run_calls L registry tool_name [(arguments, now)] st
     = ([fst (execute L registry tool_name arguments now True st)],
        snd (execute L registry tool_name arguments now True st))"
  by (simp split: prod.splits)

text \<open>
  Claim C6, as stated, fails in two places.  A tool registered with a rate limit and a
  cache TTL serves the second call with the same arguments from the result cache: the
  call is admitted, yet the underlying function has been invoked once only.  And an
  identifier that is present but empty is treated as absent: the fourth call of a tool
  limited to three is admitted like the first.
\<close>

lemmas executor_defs = example_lib_def verify_tool_def example_registry_def empty_state_def
  phone_args_def policy_def execute_def check_rate_limit_def redis_get_def redis_set_def
  redis_incr_def compute_rate_limit_key_def format_value_def compute_cache_key_def
  cache_enabled_def get_l3_def cache_l3_def py_get_def get_default_def Let_def

theorem cached_call_and_empty_identifier:
  "fst (run_calls example_lib (example_registry (Some 1800)) ''verify_customer_identity''
          [(phone_args ''+1-555-0101'', 0), (phone_args ''+1-555-0101'', 10)] empty_state)
     = [Inr (JObj [(''verified'', JBool True)]), Inr (JObj [(''verified'', JBool True)])]
   \<and> invocations (snd (run_calls example_lib (example_registry (Some 1800))
          ''verify_customer_identity''
          [(phone_args ''+1-555-0101'', 0), (phone_args ''+1-555-0101'', 10)] empty_state))
     = [(''verify_customer_identity'', phone_args ''+1-555-0101'')]
   \<and> fst (run_calls example_lib (example_registry None) ''verify_customer_identity''
          [(phone_args [], 0), (phone_args [], 10), (phone_args [], 20), (phone_args [], 30)]
          empty_state)
     = [Inr (JObj [(''verified'', JBool True)]), Inr (JObj [(''verified'', JBool True)]),
        Inr (JObj [(''verified'', JBool True)]), Inr (JObj [(''verified'', JBool True)])]"
  by (simp add: executor_defs)

text \<open>
  Claim C6, amended: let a tool be registered with the policy \<open>{max_calls, window,
  identifier_field}\<close>, \<open>max_calls\<close> not negative and \<open>window\<close> positive, and let calls
  \<open>1\<close> to \<open>max_calls + 1\<close> carry the same truthy identifier, all earlier than \<open>window\<close>
  seconds after the first, on a functioning key/value service that holds no live counter
  for the identifier at the first call.  Then none of the calls \<open>1\<close> to \<open>max_calls\<close> is
  rejected by the rate limit, and if the tool has no cache TTL each of them invokes the
  underlying function; call \<open>max_calls + 1\<close> raises \<^verbatim>\<open>RateLimitExceededError\<close> and leaves
  the state, and so the record of invocations, as it was.
\<close>

theorem rate_limit_admits_max_calls_then_rejects:
  "registry tool_name = Some td
   \<and> rate_limit td = Some (policy m w f)
   \<and> 0 \<le> m \<and> 0 < w
   \<and> truthy ident
   \<and> (\<forall>c \<in> set (cs @ [c_last]).
         py_get (fst c) f = ident \<and> snd c < snd (hd (cs @ [c_last])) + nat w)
   \<and> length cs = nat m
   \<and> redis_get (snd (hd (cs @ [c_last]))) True (counters st)
         (compute_rate_limit_key L (name_t td) ident) = None
   \<longrightarrow>
     (\<forall>r \<in> set (fst (run_calls L registry tool_name cs st)). r \<noteq> Inl RateLimitExceededError)
     \<and> (\<not> cache_enabled td \<longrightarrow>
          invocations (snd (run_calls L registry tool_name cs st))
            = invocations st @ map (\<lambda>c. (tool_name, fst c)) cs)
     \<and> run_calls L registry tool_name (cs @ [c_last]) st
         = (fst (run_calls L registry tool_name cs st) @ [Inl RateLimitExceededError],
            snd (run_calls L registry tool_name cs st))"
proof
  assume a: "registry tool_name = Some td
   \<and> rate_limit td = Some (policy m w f)
   \<and> 0 \<le> m \<and> 0 < w
   \<and> truthy ident
   \<and> (\<forall>c \<in> set (cs @ [c_last]).
         py_get (fst c) f = ident \<and> snd c < snd (hd (cs @ [c_last])) + nat w)
   \<and> length cs = nat m
   \<and> redis_get (snd (hd (cs @ [c_last]))) True (counters st)
         (compute_rate_limit_key L (name_t td) ident) = None"
  let ?key = "compute_rate_limit_key L (name_t td) ident"
  let ?run = "run_calls L registry tool_name cs st"
  from a have reg: "registry tool_name = Some td"
    and rl: "rate_limit td = Some (policy m w f)"
    and m0: "0 \<le> m" and w0: "0 < w" and tr: "truthy ident"
    and len: "length cs = nat m"
    by simp_all
  obtain al tl where cl: "c_last = (al, tl)" by (cases c_last)
  from a cl have idl: "py_get al f = ident" by simp
  have main: "(\<forall>r \<in> set (fst ?run). r \<noteq> Inl RateLimitExceededError)
     \<and> (\<not> cache_enabled td \<longrightarrow>
          invocations (snd ?run) = invocations st @ map (\<lambda>c. (tool_name, fst c)) cs)
     \<and> check_rate_limit L td al tl True (counters (snd ?run))
         = (Some RateLimitExceededError, counters (snd ?run))"
  proof (cases cs)
    case Nil
    with len m0 have "m \<le> 0" by simp
    moreover from a Nil cl have "redis_get tl True (counters st) ?key = None" by simp
    ultimately have "check_rate_limit L td al tl True (counters st)
        = (Some RateLimitExceededError, counters st)"
      using check_rate_limit_exceeded_zero [of td m w f al tl "counters st" L] rl tr idl
      by simp
    with Nil show ?thesis by simp
  next
    case (Cons c1 rest)
    obtain a1 t1 where c1: "c1 = (a1, t1)" by (cases c1)
    let ?e = "t1 + nat w"
    let ?st1 = "snd (execute L registry tool_name a1 t1 True st)"
    from a Cons c1 have id1: "py_get a1 f = ident"
      and fresh: "redis_get t1 True (counters st) ?key = None"
      and rest: "\<forall>c \<in> set rest. py_get (fst c) f = ident \<and> snd c < ?e"
      and tl: "tl < ?e"
      by (simp_all add: cl)
    from len Cons have mpos: "0 < m" and mlen: "int 1 + int (length rest) \<le> m"
      and mlen': "int (1 + length rest) = m"
      by simp_all
    have chk1: "check_rate_limit L td a1 t1 True (counters st)
        = (None, (counters st)(?key \<mapsto> (1, Some ?e)))"
      using check_rate_limit_first [of td m w f a1 t1 "counters st" L] rl tr id1 fresh mpos w0
      by simp
    from execute_admitted [where registry = registry and tool_name = tool_name, OF reg chk1]
    have r1: "fst (execute L registry tool_name a1 t1 True st) \<noteq> Inl RateLimitExceededError"
      and cnt1: "counters ?st1 = (counters st)(?key \<mapsto> (1, Some ?e))"
      and inv1: "\<not> cache_enabled td \<longrightarrow> invocations ?st1 = invocations st @ [(tool_name, a1)]"
      by simp_all
    from cnt1 have cnt1': "counters ?st1 ?key = Some (int 1, Some ?e)" by simp
    from run_calls_admitted [where registry = registry and tool_name = tool_name and k = 1,
        OF reg rl tr cnt1' _ rest mlen]
    have adm: "counters (snd (run_calls L registry tool_name rest ?st1)) ?key
           = Some (int (1 + length rest), Some ?e)
       \<and> (\<forall>r \<in> set (fst (run_calls L registry tool_name rest ?st1)).
             r \<noteq> Inl RateLimitExceededError)
       \<and> (\<not> cache_enabled td \<longrightarrow>
            invocations (snd (run_calls L registry tool_name rest ?st1))
              = invocations ?st1 @ map (\<lambda>c. (tool_name, fst c)) rest)"
      by simp
    have run: "?run = (fst (execute L registry tool_name a1 t1 True st)
                         # fst (run_calls L registry tool_name rest ?st1),
                       snd (run_calls L registry tool_name rest ?st1))"
      by (simp add: Cons c1 split: prod.splits)
    from adm mlen' have full: "counters (snd ?run) ?key = Some (m, Some ?e)"
      unfolding run by simp
    have lim: "check_rate_limit L td al tl True (counters (snd ?run))
         = (Some RateLimitExceededError, counters (snd ?run))"
      using check_rate_limit_exceeded [of td m w f al "counters (snd ?run)" L m ?e tl]
        rl tr idl full tl by simp
    from adm r1 inv1 lim show ?thesis
      unfolding run by (simp add: Cons c1)
  qed
  from main have "check_rate_limit L td al tl True (counters (snd ?run))
         = (Some RateLimitExceededError, counters (snd ?run))" by simp
  from execute_rejected [where registry = registry and tool_name = tool_name, OF reg this]
  have "run_calls L registry tool_name [c_last] (snd ?run)
      = ([Inl RateLimitExceededError], snd ?run)"
    by (simp add: cl run_calls_single)
  then have "run_calls L registry tool_name (cs @ [c_last]) st
         = (fst ?run @ [Inl RateLimitExceededError], snd ?run)"
    by (simp add: run_calls_append)
  with main show
    "(\<forall>r \<in> set (fst ?run). r \<noteq> Inl RateLimitExceededError)
     \<and> (\<not> cache_enabled td \<longrightarrow>
          invocations (snd ?run) = invocations st @ map (\<lambda>c. (tool_name, fst c)) cs)
     \<and> run_calls L registry tool_name (cs @ [c_last]) st
         = (fst ?run @ [Inl RateLimitExceededError], snd ?run)"
    by simp
qed

theorem rate_limit_admits_max_calls_then_rejects_witness:
  "fst (run_calls example_lib (example_registry None) ''verify_customer_identity''
          ([(phone_args ''+1-555-0101'', 0), (phone_args ''+1-555-0101'', 10),
            (phone_args ''+1-555-0101'', 20)] @ [(phone_args ''+1-555-0101'', 30)])
          empty_state)
     = fst (run_calls example_lib (example_registry None) ''verify_customer_identity''
          [(phone_args ''+1-555-0101'', 0), (phone_args ''+1-555-0101'', 10),
            (phone_args ''+1-555-0101'', 20)] empty_state)
       @ [Inl RateLimitExceededError]
   \<and> Inl RateLimitExceededError
       \<notin> set (fst (run_calls example_lib (example_registry None) ''verify_customer_identity''
          [(phone_args ''+1-555-0101'', 0), (phone_args ''+1-555-0101'', 10),
            (phone_args ''+1-555-0101'', 20)] empty_state))
   \<and> invocations (snd (run_calls example_lib (example_registry None)
          ''verify_customer_identity''
          ([(phone_args ''+1-555-0101'', 0), (phone_args ''+1-555-0101'', 10),
            (phone_args ''+1-555-0101'', 20)] @ [(phone_args ''+1-555-0101'', 30)])
          empty_state))
     = invocations empty_state
       @ map (\<lambda>c. (''verify_customer_identity'', fst c))
           [(phone_args ''+1-555-0101'', 0), (phone_args ''+1-555-0101'', 10),
            (phone_args ''+1-555-0101'', 20)]"
proof -
  let ?cs = "[(phone_args ''+1-555-0101'', 0::nat), (phone_args ''+1-555-0101'', 10),
            (phone_args ''+1-555-0101'', 20)]"
  let ?c = "(phone_args ''+1-555-0101'', 30::nat)"
  have h: "example_registry None ''verify_customer_identity'' = Some (verify_tool None)
   \<and> rate_limit (verify_tool None) = Some (policy 3 3600 ''phone'')
   \<and> (0::int) \<le> 3 \<and> (0::int) < 3600
   \<and> truthy (JStr ''+1-555-0101'')
   \<and> (\<forall>c \<in> set (?cs @ [?c]).
         py_get (fst c) ''phone'' = JStr ''+1-555-0101''
         \<and> snd c < snd (hd (?cs @ [?c])) + nat 3600)
   \<and> length ?cs = nat 3
   \<and> redis_get (snd (hd (?cs @ [?c]))) True (counters empty_state)
         (compute_rate_limit_key example_lib (name_t (verify_tool None))
            (JStr ''+1-555-0101'')) = None"
    by (simp add: example_registry_def verify_tool_def phone_args_def py_get_def
        get_default_def redis_get_def empty_state_def)
  have nc: "\<not> cache_enabled (verify_tool None)"
    by (simp add: cache_enabled_def verify_tool_def)
  from h nc rate_limit_admits_max_calls_then_rejects
      [of "example_registry None" "''verify_customer_identity''" "verify_tool None"
          3 3600 "''phone''" "JStr ''+1-555-0101''" ?cs ?c empty_state example_lib]
  show ?thesis by (auto simp del: run_calls.simps)
qed

end
